theory Spec2Isabelle
  imports Main "HOL-Library.Multiset"
begin

section \<open>Time values\<close>

text \<open>
  A \<open>time.Time\<close> is modelled as the number of nanoseconds since Go's zero time, so that
  \<open>IsZero\<close> is equality with 0. A \<open>time.Duration\<close> is a signed 64-bit count of
  nanoseconds: the multiplication of a duration wraps around (\<open>int64\<close>), and
  \<open>Time.Sub\<close> saturates at the smallest and largest duration. Instants themselves are
  unbounded integers (the seconds of a \<open>time.Time\<close> are outside the range any claim
  reaches).
\<close>

type_synonym time = int
type_synonym duration = int

definition int32 :: "int \<Rightarrow> int" where
  "int32 x = signed_take_bit 31 x"

definition int64 :: "int \<Rightarrow> int" where
  "int64 x = signed_take_bit 63 x"

definition Second :: duration where
  "Second = 1000000000"

definition minDuration :: duration where
  "minDuration = - (2 ^ 63)"

definition maxDuration :: duration where
  "maxDuration = 2 ^ 63 - 1"

definition IsZero :: "time \<Rightarrow> bool" where
  "IsZero t = (t = 0)"

definition Before :: "time \<Rightarrow> time \<Rightarrow> bool" where
  "Before t u = (t < u)"

definition Add :: "time \<Rightarrow> duration \<Rightarrow> time" where
  "Add t d = t + d"

definition Sub :: "time \<Rightarrow> time \<Rightarrow> duration" where
  "Sub t u =
     (if maxDuration < t - u then maxDuration
      else if t - u < minDuration then minDuration
      else t - u)"

section \<open>API objects\<close>

text \<open>
  The API types are declared in another file of the package. A \<open>CronJob\<close> carries the fields
  the webhook and the reconciler read and write; a pointer field is an \<open>option\<close>.
  \<open>ConcurrencyPolicy\<close> is a string type in Go (the defaulting compares it with the empty
  string).

  Modelled from the spec: the three concurrency policy constants (Allow, Forbid,
  Replace), whose declaration is missing with the API types.
\<close>

definition AllowConcurrent :: string where
  "AllowConcurrent = ''Allow''"

definition ForbidConcurrent :: string where
  "ForbidConcurrent = ''Forbid''"

definition ReplaceConcurrent :: string where
  "ReplaceConcurrent = ''Replace''"

datatype ObjectReference = ObjectReference string

record CronJobSpec =
  Schedule :: string
  StartingDeadlineSeconds :: "int option"
  ConcurrencyPolicy :: string
  Suspend :: "bool option"
  SuccessfulJobsHistoryLimit :: "int option"
  FailedJobsHistoryLimit :: "int option"

record CronJobStatus =
  Active :: "ObjectReference list"
  LastScheduleTime :: "time option"

record CronJob =
  Name :: string
  CreationTimestamp :: time
  Spec :: CronJobSpec
  Status :: CronJobStatus

text \<open>
  A child \<open>Job\<close>: its name, its annotations, \<open>Status.StartTime\<close> (a pointer), and its
  completion type. The reconciler itself reads only the start time; annotations and
  completion are read by helper functions.
\<close>

datatype completion = Ongoing | Succeeded | Failed

record Job =
  JobName :: string
  Annotations :: "(string \<times> string) list"
  StartTime :: "time option"
  Completion :: completion

section \<open>The reconciler and its collaborators\<close>

text \<open>
  Go errors. \<open>client.IgnoreNotFound\<close> tells a not-found API error from every other
  error; the schedule errors are those of the schedule computation.
\<close>

datatype error = NotFound | ScheduleUnparseable | ScheduleUnresolvable | OtherError string

definition IgnoreNotFound :: "error option \<Rightarrow> error option" where
  "IgnoreNotFound e = (case e of Some NotFound \<Rightarrow> None | e' \<Rightarrow> e')"

record Result =
  Requeue :: bool
  RequeueAfter :: duration

definition emptyResult :: Result where
  "emptyResult = \<lparr>Requeue = False, RequeueAfter = 0\<rparr>"

text \<open>
  What one invocation does to the outside world, in order: the log lines it writes and
  the calls it makes on the client.
\<close>

datatype event =
    LogError string "Job option"
  | LogInfo string "Job option"
  | StatusUpdateCall CronJob
  | DeleteCall Job
  | CreateCall Job

text \<open>
  \<open>CronJobReconciler\<close> holds what \<open>Reconcile\<close> calls: the client (the answers of
  \<open>Get\<close>, \<open>List\<close>, \<open>Status().Update\<close>, \<open>Delete\<close> and \<open>Create\<close> during one
  invocation), \<open>reference.GetReference\<close> on the scheme, the clock (\<open>Now r i\<close> is what the
  \<open>i\<close>-th call of \<open>r.Now()\<close> returns, counted from 0) and \<open>sort.Slice\<close>. The four
  package functions \<open>isJobFinished\<close>, \<open>getScheduledTimeForJob\<close>, \<open>getNextSchedule\<close> and
  \<open>constructJobForCronJob\<close> are called by \<open>Reconcile\<close>; their bodies lie outside the
  translated sources, so they are parameters as well.
\<close>

record CronJobReconciler =
  Get :: "error + CronJob"
  ListJobs :: "error + Job list"
  StatusUpdate :: "CronJob \<Rightarrow> error option"
  Delete :: "Job \<Rightarrow> error option"
  Create :: "Job \<Rightarrow> error option"
  GetReference :: "Job \<Rightarrow> error + ObjectReference"
  Now :: "nat \<Rightarrow> time"
  SortSlice :: "(Job \<Rightarrow> Job \<Rightarrow> bool) \<Rightarrow> Job list \<Rightarrow> Job list"
  isJobFinished :: "Job \<Rightarrow> bool \<times> string"
  getScheduledTimeForJob :: "Job \<Rightarrow> error + time option"
  getNextSchedule :: "CronJob \<Rightarrow> time \<Rightarrow> error + (time \<times> time)"
  constructJobForCronJob :: "CronJob \<Rightarrow> time \<Rightarrow> error + Job"

record Outcome =
  result :: Result
  err :: "error option"
  events :: "event list"

definition JobComplete :: string where
  "JobComplete = ''Complete''"

definition JobFailed :: string where
  "JobFailed = ''Failed''"

subsection \<open>Step 2: classifying the child jobs and rebuilding the status\<close>

record Classified =
  activeJobs :: "Job list"
  successfulJobs :: "Job list"
  failedJobs :: "Job list"
  mostRecentTime :: "time option"
  classifyLog :: "event list"

definition noneClassified :: Classified where
  "noneClassified =
     \<lparr>activeJobs = [], successfulJobs = [], failedJobs = [], mostRecentTime = None,
      classifyLog = []\<rparr>"

text \<open>One iteration of the loop over \<open>childJobs.Items\<close> (lines 115 to 143).\<close>

definition classifyJob :: "CronJobReconciler \<Rightarrow> Classified \<Rightarrow> Job \<Rightarrow> Classified" where
  "classifyJob r c job =
     (let finishedType = snd (isJobFinished r job);
          c1 = (if finishedType = '''' then c\<lparr>activeJobs := activeJobs c @ [job]\<rparr>
                else if finishedType = JobFailed then c\<lparr>failedJobs := failedJobs c @ [job]\<rparr>
                else if finishedType = JobComplete
                  then c\<lparr>successfulJobs := successfulJobs c @ [job]\<rparr>
                else c);
          c2 = c1\<lparr>classifyLog := classifyLog c1 @ [LogInfo ''fetched job counts'' None]\<rparr>
      in case getScheduledTimeForJob r job of
           Inl e \<Rightarrow>
             c2\<lparr>classifyLog := classifyLog c2
                @ [LogError ''unable to parse schedule time for child job'' (Some job)]\<rparr>
         | Inr None \<Rightarrow> c2
         | Inr (Some scheduledTimeForJob) \<Rightarrow>
             (case mostRecentTime c2 of
                None \<Rightarrow> c2\<lparr>mostRecentTime := Some scheduledTimeForJob\<rparr>
              | Some m \<Rightarrow>
                  if Before m scheduledTimeForJob
                  then c2\<lparr>mostRecentTime := Some scheduledTimeForJob\<rparr> else c2))"

definition classify :: "CronJobReconciler \<Rightarrow> Job list \<Rightarrow> Classified" where
  "classify r items = foldl (classifyJob r) noneClassified items"

text \<open>
  The loop over \<open>activeJobs\<close> that rebuilds \<open>Status.Active\<close> from nil (lines 150 to
  158): a job whose reference cannot be made is logged and skipped.
\<close>

fun activeReferences :: "CronJobReconciler \<Rightarrow> Job list \<Rightarrow> ObjectReference list \<times> event list" where
  "activeReferences r [] = ([], [])"
| "activeReferences r (activeJob # rest) =
     (case GetReference r activeJob of
        Inl e \<Rightarrow>
          (fst (activeReferences r rest),
           LogError ''unable to make reference to active job'' (Some activeJob)
             # snd (activeReferences r rest))
      | Inr jobRef \<Rightarrow> (jobRef # fst (activeReferences r rest), snd (activeReferences r rest)))"

definition rebuildStatus :: "CronJobReconciler \<Rightarrow> CronJob \<Rightarrow> Job list \<Rightarrow> CronJob" where
  "rebuildStatus r cronJob items =
     cronJob\<lparr>Status :=
       \<lparr>Active = fst (activeReferences r (activeJobs (classify r items))),
        LastScheduleTime = mostRecentTime (classify r items)\<rparr>\<rparr>"

definition statusEvents :: "CronJobReconciler \<Rightarrow> CronJob \<Rightarrow> Job list \<Rightarrow> event list" where
  "statusEvents r cronJob items =
     classifyLog (classify r items)
     @ snd (activeReferences r (activeJobs (classify r items)))
     @ [StatusUpdateCall (rebuildStatus r cronJob items)]"

subsection \<open>Step 3: cleaning up old jobs\<close>

text \<open>
  The comparison handed to \<open>sort.Slice\<close> (lines 173 to 178). \<open>StartTime\<close> is a pointer
  to a \<open>metav1.Time\<close>, whose \<open>Before\<close> is false as soon as one side is nil.
\<close>

definition startTimeLess :: "Job \<Rightarrow> Job \<Rightarrow> bool" where
  "startTimeLess a b =
     (case StartTime a of
        None \<Rightarrow> StartTime b \<noteq> None
      | Some s \<Rightarrow> (case StartTime b of None \<Rightarrow> False | Some u \<Rightarrow> Before s u))"

text \<open>
  The loop over the sorted failed jobs (lines 180 to 191), from index \<open>i\<close> on; \<open>n\<close> is
  \<open>len(failedJobs)\<close>. Index and length are converted to \<open>int32\<close> and the subtraction is
  an \<open>int32\<close> subtraction. A delete error other than not-found is logged; the loop goes
  on in either case.
\<close>

fun deleteOldFailedJobs :: "CronJobReconciler \<Rightarrow> int \<Rightarrow> nat \<Rightarrow> nat \<Rightarrow> Job list \<Rightarrow> event list" where
  "deleteOldFailedJobs r limit n i [] = []"
| "deleteOldFailedJobs r limit n i (job # rest) =
     (if int32 (int32 (int n) - limit) \<le> int32 (int i) then []
      else DeleteCall job
        # (if IgnoreNotFound (Delete r job) \<noteq> None
           then LogError ''unable to delete old failed job'' (Some job)
           else LogInfo ''deleted old failed job'' (Some job))
        # deleteOldFailedJobs r limit n (Suc i) rest)"

text \<open>
  The loop over the sorted successful jobs (lines 201 to 210). Here the error of
  \<open>Delete\<close> is compared with nil as it is.
\<close>

fun deleteOldSuccessfulJobs :: "CronJobReconciler \<Rightarrow> int \<Rightarrow> nat \<Rightarrow> nat \<Rightarrow> Job list \<Rightarrow> event list" where
  "deleteOldSuccessfulJobs r limit n i [] = []"
| "deleteOldSuccessfulJobs r limit n i (job # rest) =
     (if int32 (int32 (int n) - limit) \<le> int32 (int i) then []
      else DeleteCall job
        # (if Delete r job \<noteq> None
           then LogError ''unable to delete old successful job'' (Some job)
           else LogInfo ''deleted old successful job'' (Some job))
        # deleteOldSuccessfulJobs r limit n (Suc i) rest)"

definition trimFailedJobs :: "CronJobReconciler \<Rightarrow> CronJob \<Rightarrow> Job list \<Rightarrow> event list" where
  "trimFailedJobs r cronJob failed =
     (case FailedJobsHistoryLimit (Spec cronJob) of
        None \<Rightarrow> []
      | Some limit \<Rightarrow>
          deleteOldFailedJobs r limit (length (SortSlice r startTimeLess failed)) 0
            (SortSlice r startTimeLess failed))"

definition trimSuccessfulJobs :: "CronJobReconciler \<Rightarrow> CronJob \<Rightarrow> Job list \<Rightarrow> event list" where
  "trimSuccessfulJobs r cronJob successful =
     (case SuccessfulJobsHistoryLimit (Spec cronJob) of
        None \<Rightarrow> []
      | Some limit \<Rightarrow>
          deleteOldSuccessfulJobs r limit (length (SortSlice r startTimeLess successful)) 0
            (SortSlice r startTimeLess successful))"

subsection \<open>Steps 4 to 7: suspension, schedule, deadline, concurrency policy, launch\<close>

text \<open>
  The loop under the Replace policy (lines 278 to 284): the first delete error other
  than not-found is logged and returned, and ends the loop.
\<close>

fun deleteActiveJobs :: "CronJobReconciler \<Rightarrow> Job list \<Rightarrow> error option \<times> event list" where
  "deleteActiveJobs r [] = (None, [])"
| "deleteActiveJobs r (activeJob # rest) =
     (if IgnoreNotFound (Delete r activeJob) \<noteq> None
      then (Delete r activeJob,
            [DeleteCall activeJob, LogError ''unable to delete active job'' (Some activeJob)])
      else (fst (deleteActiveJobs r rest), DeleteCall activeJob # snd (deleteActiveJobs r rest)))"

definition tooLate :: "CronJobReconciler \<Rightarrow> CronJob \<Rightarrow> time \<Rightarrow> bool" where
  "tooLate r cronJob missedRun =
     (case StartingDeadlineSeconds (Spec cronJob) of
        None \<Rightarrow> False
      | Some seconds \<Rightarrow> Before (Add missedRun (int64 (seconds * Second))) (Now r 3))"

definition scheduledResult :: "CronJobReconciler \<Rightarrow> time \<Rightarrow> Result" where
  "scheduledResult r nextRun = \<lparr>Requeue = False, RequeueAfter = Sub nextRun (Now r 1)\<rparr>"

text \<open>
  Lines 289 to 308, after the concurrency policy has been dealt with; \<open>evs\<close> are the
  events so far.
\<close>

definition launch :: "CronJobReconciler \<Rightarrow> CronJob \<Rightarrow> time \<Rightarrow> time \<Rightarrow> event list \<Rightarrow> Outcome" where
  "launch r cronJob missedRun nextRun evs =
     (case constructJobForCronJob r cronJob missedRun of
        Inl e \<Rightarrow>
          \<lparr>result = scheduledResult r nextRun, err = None,
           events = evs @ [LogError ''unable to construct job from template'' None]\<rparr>
      | Inr job \<Rightarrow>
          (case Create r job of
             Some e \<Rightarrow>
               \<lparr>result = emptyResult, err = Some e,
                events = evs @ [CreateCall job,
                  LogError ''unable to create Job for CronJob'' (Some job)]\<rparr>
           | None \<Rightarrow>
               \<lparr>result = scheduledResult r nextRun, err = None,
                events = evs @ [CreateCall job,
                  LogInfo ''created Job for CronJob run'' (Some job)]\<rparr>))"

text \<open>
  Lines 217 to 308. The clock is read at line 235 (reading 0), line 244 (reading 1),
  line 245 (reading 2, for the logger only) and line 258 (reading 3).
\<close>

definition scheduleAndLaunch :: "CronJobReconciler \<Rightarrow> CronJob \<Rightarrow> Job list \<Rightarrow> Outcome" where
  "scheduleAndLaunch r cronJob active =
     (if Suspend (Spec cronJob) = Some True
      then \<lparr>result = emptyResult, err = None,
            events = [LogInfo ''cronjob suspended, skipping'' None]\<rparr>
      else case getNextSchedule r cronJob (Now r 0) of
        Inl e \<Rightarrow>
          \<lparr>result = emptyResult, err = None,
           events = [LogError ''unable to figure out CronJob schedule'' None]\<rparr>
      | Inr (missedRun, nextRun) \<Rightarrow>
          if IsZero missedRun
          then \<lparr>result = scheduledResult r nextRun, err = None,
                events = [LogInfo ''no upcoming scheduled times, sleeping until next'' None]\<rparr>
          else if tooLate r cronJob missedRun
          then \<lparr>result = scheduledResult r nextRun, err = None,
                events = [LogInfo ''missed starting deadline for last run, sleeping till next'' None]\<rparr>
          else if ConcurrencyPolicy (Spec cronJob) = ForbidConcurrent \<and> 0 < length active
          then \<lparr>result = scheduledResult r nextRun, err = None,
                events = [LogInfo ''concurrency policy blocks concurrent runs, skipping'' None]\<rparr>
          else if ConcurrencyPolicy (Spec cronJob) = ReplaceConcurrent
          then (case fst (deleteActiveJobs r active) of
                  Some e \<Rightarrow>
                    \<lparr>result = emptyResult, err = Some e,
                     events = snd (deleteActiveJobs r active)\<rparr>
                | None \<Rightarrow>
                    launch r cronJob missedRun nextRun (snd (deleteActiveJobs r active)))
          else launch r cronJob missedRun nextRun [])"

subsection \<open>Reconcile\<close>

definition afterEvents :: "event list \<Rightarrow> Outcome \<Rightarrow> Outcome" where
  "afterEvents evs out = out\<lparr>events := evs @ events out\<rparr>"

text \<open>
  Lines 73 to 309. The object whose status was rebuilt is the one every later step
  reads (the history limits, the suspension flag, the schedule, the deadline and the
  concurrency policy).
\<close>

definition Reconcile :: "CronJobReconciler \<Rightarrow> Outcome" where
  "Reconcile r =
     (case Get r of
        Inl e \<Rightarrow>
          \<lparr>result = emptyResult, err = IgnoreNotFound (Some e),
           events = [LogError ''unable to fetch CronJob'' None]\<rparr>
      | Inr cronJob \<Rightarrow>
          (case ListJobs r of
             Inl e \<Rightarrow>
               \<lparr>result = emptyResult, err = Some e,
                events = [LogError ''unable to list child jobs'' None]\<rparr>
           | Inr childJobs \<Rightarrow>
               (case StatusUpdate r (rebuildStatus r cronJob childJobs) of
                  Some e \<Rightarrow>
                    \<lparr>result = emptyResult, err = Some e,
                     events = statusEvents r cronJob childJobs
                       @ [LogError ''unable to update CronJob status'' None]\<rparr>
                | None \<Rightarrow>
                    afterEvents
                      (statusEvents r cronJob childJobs
                       @ trimFailedJobs r (rebuildStatus r cronJob childJobs)
                           (failedJobs (classify r childJobs))
                       @ trimSuccessfulJobs r (rebuildStatus r cronJob childJobs)
                           (successfulJobs (classify r childJobs)))
                      (scheduleAndLaunch r (rebuildStatus r cronJob childJobs)
                         (activeJobs (classify r childJobs))))))"

section \<open>The defaulting webhook\<close>

text \<open>
  \<open>Default\<close> mutates its receiver; the model returns the mutated object. The four
  \<open>if\<close> statements run in the source's order. (The log line at the start has no effect on
  the object.)
\<close>

definition Default :: "CronJob \<Rightarrow> CronJob" where
  "Default r =
     (let r1 = (if ConcurrencyPolicy (Spec r) = ''''
                then r\<lparr>Spec := (Spec r)\<lparr>ConcurrencyPolicy := AllowConcurrent\<rparr>\<rparr> else r);
          r2 = (if Suspend (Spec r1) = None
                then r1\<lparr>Spec := (Spec r1)\<lparr>Suspend := Some False\<rparr>\<rparr> else r1);
          r3 = (if SuccessfulJobsHistoryLimit (Spec r2) = None
                then r2\<lparr>Spec := (Spec r2)\<lparr>SuccessfulJobsHistoryLimit := Some 3\<rparr>\<rparr> else r2);
          r4 = (if FailedJobsHistoryLimit (Spec r3) = None
                then r3\<lparr>Spec := (Spec r3)\<lparr>FailedJobsHistoryLimit := Some 1\<rparr>\<rparr> else r3)
      in r4)"

section \<open>Reading an invocation's events\<close>

text \<open>
  The statuses handed to \<open>Status().Update\<close>, the jobs handed to \<open>Delete\<close> and the
  jobs handed to \<open>Create\<close>, each in the order of the calls.
\<close>

fun statusOf :: "event \<Rightarrow> CronJobStatus list" where
  "statusOf (StatusUpdateCall c) = [Status c]"
| "statusOf _ = []"

fun deletedOf :: "event \<Rightarrow> Job list" where
  "deletedOf (DeleteCall job) = [job]"
| "deletedOf _ = []"

fun createdOf :: "event \<Rightarrow> Job list" where
  "createdOf (CreateCall job) = [job]"
| "createdOf _ = []"

definition emittedStatus :: "event list \<Rightarrow> CronJobStatus list" where
  "emittedStatus evs = concat (map statusOf evs)"

definition deletedJobs :: "event list \<Rightarrow> Job list" where
  "deletedJobs evs = concat (map deletedOf evs)"

definition createdJobs :: "event list \<Rightarrow> Job list" where
  "createdJobs evs = concat (map createdOf evs)"

text \<open>Log lines, as opposed to calls on the client.\<close>

fun isLog :: "event \<Rightarrow> bool" where
  "isLog (LogError m j) = True"
| "isLog (LogInfo m j) = True"
| "isLog _ = False"

text \<open>
  The status as the spec words it: the last-scheduled time is the maximum of the
  scheduled times that \<open>getScheduledTimeForJob\<close> returns over the snapshot (absent when
  there is none), and the active list holds the references of the jobs of the snapshot
  that \<open>isJobFinished\<close> reports as not finished, in the snapshot's order.
\<close>

definition scheduledTimes :: "CronJobReconciler \<Rightarrow> Job list \<Rightarrow> time list" where
  "scheduledTimes r items =
     concat (map (\<lambda>job. case getScheduledTimeForJob r job of
                            Inr (Some t) \<Rightarrow> [t] | _ \<Rightarrow> []) items)"

definition maximumTime :: "time list \<Rightarrow> time option" where
  "maximumTime ts = (if ts = [] then None else Some (Max (set ts)))"

definition ongoingJobs :: "CronJobReconciler \<Rightarrow> Job list \<Rightarrow> Job list" where
  "ongoingJobs r items = filter (\<lambda>job. snd (isJobFinished r job) = '''') items"

definition referencesOf :: "CronJobReconciler \<Rightarrow> Job list \<Rightarrow> ObjectReference list" where
  "referencesOf r jobs =
     concat (map (\<lambda>job. case GetReference r job of Inr ref \<Rightarrow> [ref] | Inl e \<Rightarrow> []) jobs)"

definition reconstructStatus :: "CronJobReconciler \<Rightarrow> Job list \<Rightarrow> CronJobStatus" where
  "reconstructStatus r S =
     \<lparr>Active = referencesOf r (ongoingJobs r S),
      LastScheduleTime = maximumTime (scheduledTimes r S)\<rparr>"

section \<open>The four helper functions, from the spec\<close>

text \<open>
  What the helpers rest on outside the repository: the cron library (a parsed schedule
  is its next-activation function), the RFC 3339 reading and writing of a time, and
  whether building a job from the template of a CronJob fails.
\<close>

record Library =
  ParseStandard :: "string \<Rightarrow> (time \<Rightarrow> time) option"
  ParseRFC3339 :: "string \<Rightarrow> time option"
  FormatRFC3339 :: "time \<Rightarrow> string"
  ConstructionError :: "CronJob \<Rightarrow> error option"

definition scheduledTimeAnnotation :: string where
  "scheduledTimeAnnotation = ''batch.example.com/scheduled-at''"

text \<open>
  Modelled from the spec: \<open>isJobFinished\<close>, whose body is missing. The spec gives a work
  item a completion type (Ongoing, Succeeded, Failed) and routes by it; the source
  switches on the empty condition type, \<open>JobFailed\<close> and \<open>JobComplete\<close>.
\<close>

definition isJobFinished_spec :: "Job \<Rightarrow> bool \<times> string" where
  "isJobFinished_spec job =
     (case Completion job of
        Ongoing \<Rightarrow> (False, '''')
      | Succeeded \<Rightarrow> (True, JobComplete)
      | Failed \<Rightarrow> (True, JobFailed))"

text \<open>
  Modelled from the spec: \<open>getScheduledTimeForJob\<close>, whose body is missing. It extracts the
  scheduled-time annotation, an RFC 3339 timestamp; a value that does not parse is an
  error. A job without the annotation has no scheduled time (the source tests the
  returned pointer for nil).
\<close>

definition getScheduledTimeForJob_spec :: "Library \<Rightarrow> Job \<Rightarrow> error + time option" where
  "getScheduledTimeForJob_spec lib job =
     (case map_of (Annotations job) scheduledTimeAnnotation of
        None \<Rightarrow> Inr None
      | Some timeRaw \<Rightarrow>
          (case ParseRFC3339 lib timeRaw of
             None \<Rightarrow> Inl (OtherError ''unparseable scheduled time'')
           | Some timeParsed \<Rightarrow> Inr (Some timeParsed)))"

text \<open>
  Modelled from the spec: the schedule calculator \<open>getNextSchedule\<close> (the spec's
  \<open>computeRuns\<close>), whose body is missing. It iterates forward from the last known time
  with the next-activation operator of the schedule, keeps the latest activation at or
  before the reference time as the missed run (the zero time when there is none) and
  returns the first activation after the reference time as the next run. \<open>starts\<close>
  counts the activations at or before the reference time; beyond 100 the computation
  fails. The last known time is the later of the last recorded scheduled time and the
  creation time.
\<close>

function collectRuns :: "(time \<Rightarrow> time) \<Rightarrow> time \<Rightarrow> nat \<Rightarrow> time \<Rightarrow> time \<Rightarrow> error + (time \<times> time)" where
  "collectRuns next now starts missedRun t =
     (if t \<le> now
      then (if 100 < Suc starts then Inl ScheduleUnresolvable
            else collectRuns next now (Suc starts) t (next t))
      else Inr (missedRun, t))"
  by pat_completeness auto
termination
  by (relation "measure (\<lambda>(next, now, starts, missedRun, t). 100 - starts)") auto

declare collectRuns.simps [simp del]

definition lastKnownTime :: "CronJob \<Rightarrow> time" where
  "lastKnownTime cronJob =
     (case LastScheduleTime (Status cronJob) of
        None \<Rightarrow> CreationTimestamp cronJob
      | Some t \<Rightarrow> max t (CreationTimestamp cronJob))"

definition getNextSchedule_spec :: "Library \<Rightarrow> CronJob \<Rightarrow> time \<Rightarrow> error + (time \<times> time)" where
  "getNextSchedule_spec lib cronJob now =
     (case ParseStandard lib (Schedule (Spec cronJob)) of
        None \<Rightarrow> Inl ScheduleUnparseable
      | Some next \<Rightarrow> collectRuns next now 0 0 (next (lastKnownTime cronJob)))"

text \<open>
  Modelled from the spec: \<open>constructJobForCronJob\<close>, whose body is missing. The new work
  item is stamped with the missed run as its scheduled-time annotation; it has not
  started and is ongoing. Its name is the name of the CronJob, a dash and the timestamp
  (the comment in \<open>validateCronJobName\<close>).
\<close>

definition constructJobForCronJob_spec :: "Library \<Rightarrow> CronJob \<Rightarrow> time \<Rightarrow> error + Job" where
  "constructJobForCronJob_spec lib cronJob scheduledTime =
     (case ConstructionError lib cronJob of
        Some e \<Rightarrow> Inl e
      | None \<Rightarrow>
          Inr \<lparr>JobName = Name cronJob @ ''-'' @ FormatRFC3339 lib scheduledTime,
               Annotations = [(scheduledTimeAnnotation, FormatRFC3339 lib scheduledTime)],
               StartTime = None, Completion = Ongoing\<rparr>)"

definition withSpecHelpers :: "Library \<Rightarrow> CronJobReconciler \<Rightarrow> CronJobReconciler" where
  "withSpecHelpers lib r =
     r\<lparr>isJobFinished := isJobFinished_spec,
       getScheduledTimeForJob := getScheduledTimeForJob_spec lib,
       getNextSchedule := getNextSchedule_spec lib,
       constructJobForCronJob := constructJobForCronJob_spec lib\<rparr>"

section \<open>A store that applies every call\<close>

text \<open>
  The entity and its child jobs as the store holds them. \<open>onStore\<close> is a reconciler whose
  client answers from the store and never fails; \<open>applyEvents\<close> is the store after the
  calls of an invocation: a status update replaces the status of the entity (the call
  is made on the status subresource), a delete removes the job of that name, a create
  adds the job.
\<close>

record World =
  storedCronJob :: CronJob
  storedJobs :: "Job list"

definition onStore :: "Library \<Rightarrow> CronJobReconciler \<Rightarrow> World \<Rightarrow> CronJobReconciler" where
  "onStore lib r w =
     withSpecHelpers lib
       (r\<lparr>Get := Inr (storedCronJob w), ListJobs := Inr (storedJobs w),
          StatusUpdate := (\<lambda>c. None), Delete := (\<lambda>j. None), Create := (\<lambda>j. None)\<rparr>)"



section \<open>Example values\<close>

text \<open>
  Times are counted from Go's zero time; \<open>newYear\<close> is 2021-01-01T00:00:00Z. The example
  library knows one schedule, every minute, and reads and writes the two timestamps the
  examples use.
\<close>

definition Minute :: duration where
  "Minute = 60 * Second"

definition newYear :: time where
  "newYear = 63745056000 * Second"

definition everyMinute :: "time \<Rightarrow> time" where
  "everyMinute t = (t div Minute + 1) * Minute"

definition exampleLibrary :: Library where
  "exampleLibrary =
     \<lparr>ParseStandard = (\<lambda>s. if s = ''*/1 * * * *'' then Some everyMinute else None),
      ParseRFC3339 =
        (\<lambda>s. if s = ''2021-01-01T00:01:00Z'' then Some (newYear + Minute)
             else if s = ''2021-01-01T00:02:00Z'' then Some (newYear + 2 * Minute)
             else None),
      FormatRFC3339 =
        (\<lambda>t. if t = newYear + Minute then ''2021-01-01T00:01:00Z''
             else if t = newYear + 2 * Minute then ''2021-01-01T00:02:00Z''
             else ''other''),
      ConstructionError = (\<lambda>c. None)\<rparr>"

text \<open>
  \<open>sort.Slice\<close> as Go 1.16 (the release the repository is developed with) runs it on a
  slice of at most 12 elements: \<open>quickSort_func\<close> skips its partitioning loop, makes one
  pass that compares and swaps the elements six places apart, and ends with an insertion
  sort. \<open>insertionStep\<close> is the inner loop of the insertion sort, moving the element at
  index \<open>j\<close> down while it is less than its left neighbour.
\<close>

definition swap :: "'a list \<Rightarrow> nat \<Rightarrow> nat \<Rightarrow> 'a list" where
  "swap xs i j = xs[i := xs ! j, j := xs ! i]"

fun insertionStep :: "('a \<Rightarrow> 'a \<Rightarrow> bool) \<Rightarrow> nat \<Rightarrow> 'a list \<Rightarrow> 'a list" where
  "insertionStep lt 0 xs = xs"
| "insertionStep lt (Suc j) xs =
     (if lt (xs ! Suc j) (xs ! j) then insertionStep lt j (swap xs (Suc j) j) else xs)"

definition insertionSort :: "('a \<Rightarrow> 'a \<Rightarrow> bool) \<Rightarrow> 'a list \<Rightarrow> 'a list" where
  "insertionSort lt xs = fold (insertionStep lt) [1..<length xs] xs"

definition gapPass :: "('a \<Rightarrow> 'a \<Rightarrow> bool) \<Rightarrow> 'a list \<Rightarrow> 'a list" where
  "gapPass lt xs =
     fold (\<lambda>i ys. if lt (ys ! i) (ys ! (i - 6)) then swap ys i (i - 6) else ys)
       [6..<length xs] xs"

definition shortSortSlice :: "('a \<Rightarrow> 'a \<Rightarrow> bool) \<Rightarrow> 'a list \<Rightarrow> 'a list" where
  "shortSortSlice lt xs = (if 1 < length xs then insertionSort lt (gapPass lt xs) else xs)"

text \<open>
  The example reconciler: a client that finds no entity and otherwise never fails, a
  clock that stands still at \<open>now\<close>, and the helpers as the spec describes them.
  \<open>onStore\<close> puts a store behind it.
\<close>

definition exampleReconciler :: "time \<Rightarrow> CronJobReconciler" where
  "exampleReconciler now =
     withSpecHelpers exampleLibrary
       \<lparr>Get = Inl NotFound, ListJobs = Inr [], StatusUpdate = (\<lambda>c. None),
        Delete = (\<lambda>j. None), Create = (\<lambda>j. None),
        GetReference = (\<lambda>j. Inr (ObjectReference (JobName j))),
        Now = (\<lambda>i. now), SortSlice = shortSortSlice,
        isJobFinished = (\<lambda>j. (False, '''')), getScheduledTimeForJob = (\<lambda>j. Inr None),
        getNextSchedule = (\<lambda>c t. Inl ScheduleUnparseable),
        constructJobForCronJob = (\<lambda>c t. Inl ScheduleUnparseable)\<rparr>"

definition exampleJob :: "string \<Rightarrow> string \<Rightarrow> time option \<Rightarrow> completion \<Rightarrow> Job" where
  "exampleJob name scheduledAt started completed =
     \<lparr>JobName = name, Annotations = [(scheduledTimeAnnotation, scheduledAt)],
      StartTime = started, Completion = completed\<rparr>"

definition cronJobExample :: CronJob where
  "cronJobExample =
     \<lparr>Name = ''nightly'', CreationTimestamp = newYear,
      Spec = \<lparr>Schedule = ''*/1 * * * *'', StartingDeadlineSeconds = None,
              ConcurrencyPolicy = '''', Suspend = None,
              SuccessfulJobsHistoryLimit = Some 0, FailedJobsHistoryLimit = None\<rparr>,
      Status = \<lparr>Active = [], LastScheduleTime = None\<rparr>\<rparr>"

text \<open>
  A snapshot of three child jobs: one still running, one that succeeded, and one that
  failed and whose annotation does not parse. \<open>staleCronJob\<close> is the example entity with
  a status left over from before.
\<close>

definition exampleJobs :: "Job list" where
  "exampleJobs =
     [exampleJob ''nightly-a'' ''2021-01-01T00:01:00Z'' None Ongoing,
      exampleJob ''nightly-b'' ''2021-01-01T00:02:00Z'' (Some (newYear + 2 * Minute)) Succeeded,
      exampleJob ''nightly-c'' ''yesterday'' None Failed]"

definition staleCronJob :: CronJob where
  "staleCronJob =
     cronJobExample\<lparr>Status :=
       \<lparr>Active = [ObjectReference ''nightly-0''], LastScheduleTime = Some newYear\<rparr>\<rparr>"

text \<open>
  The example entity under the Forbid policy, a snapshot with one running job launched
  for 00:01, and a clock at 00:02:30.
\<close>

definition forbidCronJob :: CronJob where
  "forbidCronJob = cronJobExample\<lparr>Spec := (Spec cronJobExample)\<lparr>ConcurrencyPolicy := ForbidConcurrent\<rparr>\<rparr>"

definition runningJobs :: "Job list" where
  "runningJobs = [exampleJob ''nightly-a'' ''2021-01-01T00:01:00Z'' (Some (newYear + Minute)) Ongoing]"

definition halfPastTwo :: time where
  "halfPastTwo = newYear + 2 * Minute + 30 * Second"

text \<open>
  The example entity with a starting deadline of ten seconds; at 00:02:30 the run of
  00:02 is twenty seconds past it.
\<close>

definition deadlineCronJob :: CronJob where
  "deadlineCronJob =
     cronJobExample\<lparr>Spec := (Spec cronJobExample)\<lparr>StartingDeadlineSeconds := Some 10\<rparr>\<rparr>"

text \<open>
  The example entity under the Replace policy, with the running job of 00:01 and the
  clock at 00:02:30; every delete call is answered with the given error.
\<close>

definition replaceCronJob :: CronJob where
  "replaceCronJob =
     cronJobExample\<lparr>Spec := (Spec cronJobExample)\<lparr>ConcurrencyPolicy := ReplaceConcurrent\<rparr>\<rparr>"

definition replaceReconciler :: "error \<Rightarrow> CronJobReconciler" where
  "replaceReconciler e =
     (onStore exampleLibrary (exampleReconciler halfPastTwo)
        \<lparr>storedCronJob = replaceCronJob, storedJobs = runningJobs\<rparr>)\<lparr>Delete := (\<lambda>j. Some e)\<rparr>"

text \<open>
  The example entity keeps no successful job. Its one child job has succeeded and is
  already gone from the store: the delete call is answered with not-found.
\<close>

definition succeededJob :: Job where
  "succeededJob =
     exampleJob ''nightly-b'' ''2021-01-01T00:02:00Z'' (Some (newYear + 2 * Minute)) Succeeded"

definition goneReconciler :: CronJobReconciler where
  "goneReconciler =
     (onStore exampleLibrary (exampleReconciler halfPastTwo)
        \<lparr>storedCronJob = cronJobExample, storedJobs = [succeededJob]\<rparr>)
       \<lparr>Delete := (\<lambda>j. Some NotFound)\<rparr>"

text \<open>
  The jobs deleted by a trimming loop are the oldest ones: some list \<open>kept\<close> makes up,
  with the deleted jobs, the items handed in; it has \<open>min N K\<close> elements; and no kept
  job is older than a deleted one, where a job without start time is older than every
  job with one.
\<close>

definition oldestDeleted :: "Job list \<Rightarrow> int \<Rightarrow> Job list \<Rightarrow> bool" where
  "oldestDeleted items K deleted =
     (\<exists>kept. mset (deleted @ kept) = mset items
        \<and> length deleted = nat (int (length items) - K)
        \<and> length kept = min (length items) (nat K)
        \<and> (\<forall>d\<in>set deleted. \<forall>k\<in>set kept. \<not> startTimeLess k d))"

text \<open>
  The selection as the spec words it: sort ascending by start time with a stable sort,
  items without start time first, and select all items except the \<open>keep\<close> most recent.
\<close>

fun insertByStart :: "Job \<Rightarrow> Job list \<Rightarrow> Job list" where
  "insertByStart x [] = [x]"
| "insertByStart x (y # ys) =
     (if startTimeLess y x then y # insertByStart x ys else x # y # ys)"

definition stableSortByStart :: "Job list \<Rightarrow> Job list" where
  "stableSortByStart items = foldr insertByStart items []"

definition selectForDeletion :: "Job list \<Rightarrow> nat \<Rightarrow> Job list" where
  "selectForDeletion items keep = take (length items - keep) (stableSortByStart items)"

text \<open>
  Seven failed jobs, the second and the last of which never started, under a failed
  history limit of six.
\<close>

definition failedJob :: "string \<Rightarrow> time option \<Rightarrow> Job" where
  "failedJob name started = exampleJob name ''2021-01-01T00:01:00Z'' started Failed"

definition sevenJobs :: "Job list" where
  "sevenJobs =
     [failedJob ''nightly-0'' (Some (newYear + 5 * Second)),
      failedJob ''nightly-1'' None,
      failedJob ''nightly-2'' (Some (newYear + 6 * Second)),
      failedJob ''nightly-3'' (Some (newYear + 7 * Second)),
      failedJob ''nightly-4'' (Some (newYear + 8 * Second)),
      failedJob ''nightly-5'' (Some (newYear + 9 * Second)),
      failedJob ''nightly-6'' None]"

definition keepSix :: CronJob where
  "keepSix = cronJobExample\<lparr>Spec := (Spec cronJobExample)\<lparr>FailedJobsHistoryLimit := Some 6\<rparr>\<rparr>"

definition sevenReconciler :: CronJobReconciler where
  "sevenReconciler =
     onStore exampleLibrary (exampleReconciler halfPastTwo)
       \<lparr>storedCronJob = keepSix, storedJobs = sevenJobs\<rparr>"

text \<open>
  The example entity, created at midnight, with no child job, reconciled at 03:20: two
  hundred activations have gone by.
\<close>

definition staleReconciler :: CronJobReconciler where
  "staleReconciler =
     onStore exampleLibrary (exampleReconciler (newYear + 200 * Minute))
       \<lparr>storedCronJob = cronJobExample, storedJobs = []\<rparr>"

text \<open>
  A suspended entity whose schedule is perfectly computable, and a clock that moves
  from 00:02:59 at the first reading to 00:03:01 at the later ones.
\<close>

definition suspendedCronJob :: CronJob where
  "suspendedCronJob = cronJobExample\<lparr>Spec := (Spec cronJobExample)\<lparr>Suspend := Some True\<rparr>\<rparr>"

definition suspendedReconciler :: CronJobReconciler where
  "suspendedReconciler =
     onStore exampleLibrary (exampleReconciler halfPastTwo)
       \<lparr>storedCronJob = suspendedCronJob, storedJobs = runningJobs\<rparr>"

definition driftingReconciler :: CronJobReconciler where
  "driftingReconciler =
     (onStore exampleLibrary (exampleReconciler halfPastTwo)
        \<lparr>storedCronJob = cronJobExample, storedJobs = exampleJobs\<rparr>)
       \<lparr>Now := (\<lambda>i. if i = 0 then newYear + 2 * Minute + 59 * Second
                     else newYear + 3 * Minute + Second)\<rparr>"



section \<open>Properties of the defaulting webhook\<close>

text \<open>
  C10. For every CronJob object, the defaulting sets ConcurrencyPolicy to Allow when it
  is the empty string, Suspend to false when nil, SuccessfulJobsHistoryLimit to 3 when
  nil and FailedJobsHistoryLimit to 1 when nil, and leaves every field that was already
  set (and every other field of the object) unchanged.
\<close>

theorem Default_sets_unset_fields_only:
  "ConcurrencyPolicy (Spec (Default r)) =
     (if ConcurrencyPolicy (Spec r) = '''' then AllowConcurrent else ConcurrencyPolicy (Spec r))
   \<and> Suspend (Spec (Default r)) =
     (case Suspend (Spec r) of None \<Rightarrow> Some False | Some b \<Rightarrow> Some b)
   \<and> SuccessfulJobsHistoryLimit (Spec (Default r)) =
     (case SuccessfulJobsHistoryLimit (Spec r) of None \<Rightarrow> Some 3 | Some k \<Rightarrow> Some k)
   \<and> FailedJobsHistoryLimit (Spec (Default r)) =
     (case FailedJobsHistoryLimit (Spec r) of None \<Rightarrow> Some 1 | Some k \<Rightarrow> Some k)
   \<and> Schedule (Spec (Default r)) = Schedule (Spec r)
   \<and> StartingDeadlineSeconds (Spec (Default r)) = StartingDeadlineSeconds (Spec r)
   \<and> Name (Default r) = Name r
   \<and> CreationTimestamp (Default r) = CreationTimestamp r
   \<and> Status (Default r) = Status r"
  by (simp add: Default_def Let_def split: option.split)

text \<open>
  C10 on the example entity: the concurrency policy, the suspension flag and the failed
  history limit are unset, the successful history limit is 0 and stays 0.
\<close>

theorem Default_sets_unset_fields_only_witness:
  "Spec (Default cronJobExample) =
     \<lparr>Schedule = ''*/1 * * * *'', StartingDeadlineSeconds = None,
      ConcurrencyPolicy = ''Allow'', Suspend = Some False,
      SuccessfulJobsHistoryLimit = Some 0, FailedJobsHistoryLimit = Some 1\<rparr>"
  using Default_sets_unset_fields_only [of cronJobExample]
  by (simp add: cronJobExample_def AllowConcurrent_def Default_def)

section \<open>Status reconstruction\<close>

lemma emittedStatus_append: "emittedStatus (a @ b) = emittedStatus a @ emittedStatus b"
  by (simp add: emittedStatus_def)

lemma deletedJobs_append: "deletedJobs (a @ b) = deletedJobs a @ deletedJobs b"
  by (simp add: deletedJobs_def)

lemma createdJobs_append: "createdJobs (a @ b) = createdJobs a @ createdJobs b"
  by (simp add: createdJobs_def)

lemma logs_emit_nothing:
  "list_all isLog evs \<Longrightarrow> emittedStatus evs = [] \<and> deletedJobs evs = [] \<and> createdJobs evs = []"
proof (induction evs)
  case Nil
  show ?case by (simp add: emittedStatus_def deletedJobs_def createdJobs_def)
next
  case (Cons e evs)
  then show ?case
    by (cases e) (simp_all add: emittedStatus_def deletedJobs_def createdJobs_def)
qed

lemma classifyJob_activeJobs:
  "activeJobs (classifyJob r c job) =
     activeJobs c @ (if snd (isJobFinished r job) = '''' then [job] else [])"
  by (simp add: classifyJob_def Let_def split: sum.split option.split)

lemma classifyJob_failedJobs:
  "failedJobs (classifyJob r c job) =
     failedJobs c @ (if snd (isJobFinished r job) = JobFailed then [job] else [])"
  by (simp add: classifyJob_def Let_def JobFailed_def split: sum.split option.split)

lemma classifyJob_successfulJobs:
  "successfulJobs (classifyJob r c job) =
     successfulJobs c @ (if snd (isJobFinished r job) = JobComplete then [job] else [])"
  by (simp add: classifyJob_def Let_def JobFailed_def JobComplete_def split: sum.split option.split)

lemma classifyJob_mostRecentTime:
  "mostRecentTime (classifyJob r c job) =
     (case getScheduledTimeForJob r job of
        Inr (Some t) \<Rightarrow>
          (case mostRecentTime c of None \<Rightarrow> Some t | Some m \<Rightarrow> Some (max m t))
      | _ \<Rightarrow> mostRecentTime c)"
  by (simp add: classifyJob_def Let_def Before_def max_def split: sum.split option.split)

lemma classifyJob_log:
  "list_all isLog (classifyLog c) \<Longrightarrow> list_all isLog (classifyLog (classifyJob r c job))"
  by (simp add: classifyJob_def Let_def split: sum.split option.split)

lemma foldl_classifyJob_activeJobs:
  "activeJobs (foldl (classifyJob r) c items) = activeJobs c @ ongoingJobs r items"
  by (induction items arbitrary: c) (simp_all add: ongoingJobs_def classifyJob_activeJobs)

lemma foldl_classifyJob_failedJobs:
  "failedJobs (foldl (classifyJob r) c items) =
     failedJobs c @ filter (\<lambda>job. snd (isJobFinished r job) = JobFailed) items"
  by (induction items arbitrary: c) (simp_all add: classifyJob_failedJobs)

lemma foldl_classifyJob_successfulJobs:
  "successfulJobs (foldl (classifyJob r) c items) =
     successfulJobs c @ filter (\<lambda>job. snd (isJobFinished r job) = JobComplete) items"
  by (induction items arbitrary: c) (simp_all add: classifyJob_successfulJobs)

lemma foldl_classifyJob_log:
  "list_all isLog (classifyLog c) \<Longrightarrow> list_all isLog (classifyLog (foldl (classifyJob r) c items))"
  by (induction items arbitrary: c) (simp_all add: classifyJob_log)

lemma maximumTime_Cons:
  "maximumTime (t # ts) = (case maximumTime ts of None \<Rightarrow> Some t | Some m \<Rightarrow> Some (max t m))"
  by (simp add: maximumTime_def)

lemma foldl_classifyJob_mostRecentTime:
  "mostRecentTime (foldl (classifyJob r) c items) =
     maximumTime ((case mostRecentTime c of None \<Rightarrow> [] | Some m \<Rightarrow> [m]) @ scheduledTimes r items)"
proof (induction items arbitrary: c)
  case Nil
  show ?case by (simp add: scheduledTimes_def maximumTime_def split: option.split)
next
  case (Cons job items)
  have step: "maximumTime (max m t # ts) = maximumTime (m # t # ts)" for m t :: time and ts
    by (simp add: maximumTime_Cons max.assoc split: option.split)
  show ?case
    by (cases "getScheduledTimeForJob r job")
       (auto simp add: Cons classifyJob_mostRecentTime scheduledTimes_def step split: option.split)
qed


lemma activeReferences_fst: "fst (activeReferences r jobs) = referencesOf r jobs"
  by (induction jobs) (simp_all add: referencesOf_def split: sum.split)

lemma activeReferences_log: "list_all isLog (snd (activeReferences r jobs))"
  by (induction jobs) (simp_all split: sum.split)

lemma classify_activeJobs: "activeJobs (classify r items) = ongoingJobs r items"
  by (simp add: classify_def foldl_classifyJob_activeJobs noneClassified_def)

lemma classify_mostRecentTime:
  "mostRecentTime (classify r items) = maximumTime (scheduledTimes r items)"
  by (simp add: classify_def foldl_classifyJob_mostRecentTime noneClassified_def)

lemma classify_log: "list_all isLog (classifyLog (classify r items))"
  by (simp add: classify_def foldl_classifyJob_log noneClassified_def)

lemma rebuildStatus_Status: "Status (rebuildStatus r cronJob S) = reconstructStatus r S"
  by (simp add: rebuildStatus_def reconstructStatus_def activeReferences_fst
      classify_activeJobs classify_mostRecentTime)

lemma statusEvents_emitted:
  "emittedStatus (statusEvents r cronJob S) = [reconstructStatus r S]"
  "deletedJobs (statusEvents r cronJob S) = []"
  "createdJobs (statusEvents r cronJob S) = []"
  using logs_emit_nothing [OF classify_log, of r S]
    logs_emit_nothing [OF activeReferences_log, of r "activeJobs (classify r S)"]
  by (simp_all add: statusEvents_def emittedStatus_append deletedJobs_append createdJobs_append
      rebuildStatus_Status)
     (simp_all add: emittedStatus_def deletedJobs_def createdJobs_def rebuildStatus_Status)

lemma deleteOldFailedJobs_emitted:
  "emittedStatus (deleteOldFailedJobs r limit n i jobs) = []"
  "createdJobs (deleteOldFailedJobs r limit n i jobs) = []"
  by (induction jobs arbitrary: i) (simp_all add: emittedStatus_def createdJobs_def)

lemma deleteOldSuccessfulJobs_emitted:
  "emittedStatus (deleteOldSuccessfulJobs r limit n i jobs) = []"
  "createdJobs (deleteOldSuccessfulJobs r limit n i jobs) = []"
  by (induction jobs arbitrary: i) (simp_all add: emittedStatus_def createdJobs_def)

lemma trimFailedJobs_emitted:
  "emittedStatus (trimFailedJobs r cronJob jobs) = []"
  "createdJobs (trimFailedJobs r cronJob jobs) = []"
  by (simp_all add: trimFailedJobs_def deleteOldFailedJobs_emitted split: option.split)
     (simp_all add: emittedStatus_def createdJobs_def)

lemma trimSuccessfulJobs_emitted:
  "emittedStatus (trimSuccessfulJobs r cronJob jobs) = []"
  "createdJobs (trimSuccessfulJobs r cronJob jobs) = []"
  by (simp_all add: trimSuccessfulJobs_def deleteOldSuccessfulJobs_emitted split: option.split)
     (simp_all add: emittedStatus_def createdJobs_def)

lemma deleteActiveJobs_emitted:
  "emittedStatus (snd (deleteActiveJobs r jobs)) = []"
  "createdJobs (snd (deleteActiveJobs r jobs)) = []"
  by (induction jobs) (simp_all add: emittedStatus_def createdJobs_def)

lemma launch_emitted:
  "emittedStatus (events (launch r cronJob m n evs)) = emittedStatus evs"
  by (simp add: launch_def emittedStatus_def split: sum.split option.split)

lemma scheduleAndLaunch_emitted:
  "emittedStatus (events (scheduleAndLaunch r cronJob active)) = []"
  by (simp add: scheduleAndLaunch_def launch_emitted deleteActiveJobs_emitted
      split: sum.split option.split prod.split)
     (simp add: emittedStatus_def)

lemma Reconcile_fetched:
  assumes "Get r = Inr cronJob" and "ListJobs r = Inr S"
    and "StatusUpdate r (rebuildStatus r cronJob S) = None"
  shows "Reconcile r =
     afterEvents
       (statusEvents r cronJob S
        @ trimFailedJobs r (rebuildStatus r cronJob S) (failedJobs (classify r S))
        @ trimSuccessfulJobs r (rebuildStatus r cronJob S) (successfulJobs (classify r S)))
       (scheduleAndLaunch r (rebuildStatus r cronJob S) (ongoingJobs r S))"
  using assms by (simp add: Reconcile_def classify_activeJobs)

lemma Reconcile_emittedStatus:
  assumes "Get r = Inr cronJob" and "ListJobs r = Inr S"
  shows "emittedStatus (events (Reconcile r)) = [reconstructStatus r S]"
proof (cases "StatusUpdate r (rebuildStatus r cronJob S)")
  case None
  then show ?thesis
    using assms
    by (simp add: Reconcile_fetched [OF assms None] afterEvents_def emittedStatus_append
        statusEvents_emitted trimFailedJobs_emitted trimSuccessfulJobs_emitted
        scheduleAndLaunch_emitted)
next
  case (Some e)
  then show ?thesis
    using assms
    by (simp add: Reconcile_def emittedStatus_append statusEvents_emitted)
       (simp add: emittedStatus_def)
qed

text \<open>
  C3. For every child snapshot and every prior status, the status that the reconciler
  hands to the status update is a function of the snapshot alone: two invocations over
  the same snapshot emit the same status whatever entity (and whatever status stored on
  it) each of them fetched. The last-scheduled time is the maximum of the scheduled
  times read from the snapshot, absent if there is none, and the active list is rebuilt
  from the jobs of the snapshot that are not finished.
\<close>

theorem status_rebuilt_from_snapshot_alone:
  assumes "Get r = Inr cronJob" and "ListJobs r = Inr S"
    and "Get r' = Inr cronJob'" and "ListJobs r' = Inr S"
    and "isJobFinished r' = isJobFinished r"
    and "getScheduledTimeForJob r' = getScheduledTimeForJob r"
    and "GetReference r' = GetReference r"
  shows "emittedStatus (events (Reconcile r)) = [reconstructStatus r S]
       \<and> emittedStatus (events (Reconcile r')) = emittedStatus (events (Reconcile r))"
proof -
  have "reconstructStatus r' S = reconstructStatus r S"
    using assms(5-7)
    by (simp add: reconstructStatus_def referencesOf_def ongoingJobs_def scheduledTimes_def)
  then show ?thesis
    using Reconcile_emittedStatus [OF assms(1,2)] Reconcile_emittedStatus [OF assms(3,4)]
    by simp
qed

text \<open>
  C3 on the example snapshot: the entity with an empty status and the entity with a
  stale status are both given the same rebuilt status.
\<close>

theorem status_rebuilt_from_snapshot_alone_witness:
  "emittedStatus (events (Reconcile (onStore exampleLibrary (exampleReconciler (newYear + 150 * Second))
      \<lparr>storedCronJob = cronJobExample, storedJobs = exampleJobs\<rparr>)))
     = [\<lparr>Active = [ObjectReference ''nightly-a''],
         LastScheduleTime = Some (newYear + 2 * Minute)\<rparr>]
   \<and> emittedStatus (events (Reconcile (onStore exampleLibrary (exampleReconciler (newYear + 150 * Second))
      \<lparr>storedCronJob = staleCronJob, storedJobs = exampleJobs\<rparr>)))
     = [\<lparr>Active = [ObjectReference ''nightly-a''],
         LastScheduleTime = Some (newYear + 2 * Minute)\<rparr>]"
proof -
  let ?r = "onStore exampleLibrary (exampleReconciler (newYear + 150 * Second))
      \<lparr>storedCronJob = cronJobExample, storedJobs = exampleJobs\<rparr>"
  let ?r' = "onStore exampleLibrary (exampleReconciler (newYear + 150 * Second))
      \<lparr>storedCronJob = staleCronJob, storedJobs = exampleJobs\<rparr>"
  have h: "Get ?r = Inr cronJobExample" "ListJobs ?r = Inr exampleJobs"
    "Get ?r' = Inr staleCronJob" "ListJobs ?r' = Inr exampleJobs"
    "isJobFinished ?r' = isJobFinished ?r"
    "getScheduledTimeForJob ?r' = getScheduledTimeForJob ?r"
    "GetReference ?r' = GetReference ?r"
    by (simp_all add: onStore_def withSpecHelpers_def exampleReconciler_def)
  have v: "reconstructStatus ?r exampleJobs
     = \<lparr>Active = [ObjectReference ''nightly-a''],
        LastScheduleTime = Some (newYear + 2 * Minute)\<rparr>"
    by code_simp
  show ?thesis
    using status_rebuilt_from_snapshot_alone [OF h] v by simp
qed

section \<open>Concurrency policy and deadline\<close>

lemma rebuildStatus_Spec: "Spec (rebuildStatus r cronJob S) = Spec cronJob"
  by (simp add: rebuildStatus_def)

lemma afterEvents_simps:
  "result (afterEvents evs out) = result out"
  "err (afterEvents evs out) = err out"
  "events (afterEvents evs out) = evs @ events out"
  by (simp_all add: afterEvents_def)

lemma prefix_created:
  "createdJobs (statusEvents r cronJob S
        @ trimFailedJobs r c1 failed @ trimSuccessfulJobs r c2 successful) = []"
  by (simp add: createdJobs_append statusEvents_emitted trimFailedJobs_emitted
      trimSuccessfulJobs_emitted)

lemma Reconcile_created_unfetched:
  assumes "Get r = Inr cronJob" and "ListJobs r = Inr S"
    and "StatusUpdate r (rebuildStatus r cronJob S) = Some e"
  shows "createdJobs (events (Reconcile r)) = []"
  using assms
  by (simp add: Reconcile_def createdJobs_append statusEvents_emitted)
     (simp add: createdJobs_def)

lemma Reconcile_created:
  assumes "Get r = Inr cronJob" and "ListJobs r = Inr S"
    and "StatusUpdate r (rebuildStatus r cronJob S) = None"
  shows "createdJobs (events (Reconcile r)) =
     createdJobs (events (scheduleAndLaunch r (rebuildStatus r cronJob S) (ongoingJobs r S)))"
  by (simp add: Reconcile_fetched [OF assms] afterEvents_simps createdJobs_append
      statusEvents_emitted trimFailedJobs_emitted trimSuccessfulJobs_emitted)

lemma scheduleAndLaunch_forbid:
  assumes "ConcurrencyPolicy (Spec c) = ForbidConcurrent" and "active \<noteq> []"
  shows "createdJobs (events (scheduleAndLaunch r c active)) = []"
  using assms
  by (simp add: scheduleAndLaunch_def createdJobs_def split: sum.split prod.split)

lemma scheduleAndLaunch_forbid_result:
  assumes "ConcurrencyPolicy (Spec c) = ForbidConcurrent" and "active \<noteq> []"
    and "Suspend (Spec c) \<noteq> Some True"
    and "getNextSchedule r c (Now r 0) = Inr (missedRun, nextRun)"
  shows "result (scheduleAndLaunch r c active) = scheduledResult r nextRun"
    and "err (scheduleAndLaunch r c active) = None"
  using assms by (simp_all add: scheduleAndLaunch_def)

text \<open>
  C4. For every reconciliation in which the concurrency policy is Forbid and the
  classified active group is not empty, no work item is created; and once the status
  is stored, the entity is not suspended and the schedule is computed, the invocation
  ends without error with the standard requeue, after the next run minus the clock
  reading.
\<close>

theorem forbid_with_active_job_no_launch:
  assumes "Get r = Inr cronJob" and "ListJobs r = Inr S"
    and "ConcurrencyPolicy (Spec cronJob) = ForbidConcurrent"
    and "ongoingJobs r S \<noteq> []"
  shows "createdJobs (events (Reconcile r)) = []
       \<and> (StatusUpdate r (rebuildStatus r cronJob S) = None
            \<and> Suspend (Spec cronJob) \<noteq> Some True
            \<and> getNextSchedule r (rebuildStatus r cronJob S) (Now r 0) = Inr (missedRun, nextRun)
          \<longrightarrow> result (Reconcile r) = \<lparr>Requeue = False, RequeueAfter = Sub nextRun (Now r 1)\<rparr>
              \<and> err (Reconcile r) = None)"
proof (cases "StatusUpdate r (rebuildStatus r cronJob S)")
  case (Some e)
  then show ?thesis
    using Reconcile_created_unfetched [OF assms(1,2) Some] by simp
next
  case None
  have policy: "ConcurrencyPolicy (Spec (rebuildStatus r cronJob S)) = ForbidConcurrent"
    using assms(3) by (simp add: rebuildStatus_Spec)
  have "createdJobs (events (Reconcile r)) = []"
    using Reconcile_created [OF assms(1,2) None] scheduleAndLaunch_forbid [OF policy assms(4)]
    by simp
  moreover have "result (Reconcile r) = \<lparr>Requeue = False, RequeueAfter = Sub nextRun (Now r 1)\<rparr>
      \<and> err (Reconcile r) = None"
    if "Suspend (Spec cronJob) \<noteq> Some True"
      and "getNextSchedule r (rebuildStatus r cronJob S) (Now r 0) = Inr (missedRun, nextRun)"
    using scheduleAndLaunch_forbid_result [OF policy assms(4) _ that(2)] that(1)
    by (simp add: Reconcile_fetched [OF assms(1,2) None] afterEvents_simps rebuildStatus_Spec
        scheduledResult_def)
  ultimately show ?thesis by blast
qed

text \<open>
  C4 on the example entity under Forbid, with one running job, at 00:02:30: the run of
  00:02 is due, nothing is created and the requeue is after 30 seconds.
\<close>

theorem forbid_with_active_job_no_launch_witness:
  "createdJobs (events (Reconcile (onStore exampleLibrary (exampleReconciler halfPastTwo)
      \<lparr>storedCronJob = forbidCronJob, storedJobs = runningJobs\<rparr>))) = []
   \<and> result (Reconcile (onStore exampleLibrary (exampleReconciler halfPastTwo)
      \<lparr>storedCronJob = forbidCronJob, storedJobs = runningJobs\<rparr>))
       = \<lparr>Requeue = False, RequeueAfter = 30 * Second\<rparr>
   \<and> err (Reconcile (onStore exampleLibrary (exampleReconciler halfPastTwo)
      \<lparr>storedCronJob = forbidCronJob, storedJobs = runningJobs\<rparr>)) = None"
proof -
  let ?r = "onStore exampleLibrary (exampleReconciler halfPastTwo)
      \<lparr>storedCronJob = forbidCronJob, storedJobs = runningJobs\<rparr>"
  have h: "Get ?r = Inr forbidCronJob" "ListJobs ?r = Inr runningJobs"
    by (simp_all add: onStore_def withSpecHelpers_def exampleReconciler_def)
  have p: "ConcurrencyPolicy (Spec forbidCronJob) = ForbidConcurrent"
    by (simp add: forbidCronJob_def)
  have a: "ongoingJobs ?r runningJobs \<noteq> []"
    by code_simp
  have u: "StatusUpdate ?r (rebuildStatus ?r forbidCronJob runningJobs) = None"
    by (simp add: onStore_def withSpecHelpers_def exampleReconciler_def)
  have s: "Suspend (Spec forbidCronJob) \<noteq> Some True"
    by (simp add: forbidCronJob_def cronJobExample_def)
  have g: "getNextSchedule ?r (rebuildStatus ?r forbidCronJob runningJobs) (Now ?r 0)
      = Inr (newYear + 2 * Minute, newYear + 3 * Minute)"
    by code_simp
  have d: "Sub (newYear + 3 * Minute) (Now ?r 1) = 30 * Second"
    by code_simp
  show ?thesis
    using forbid_with_active_job_no_launch [OF h p a, of "newYear + 2 * Minute" "newYear + 3 * Minute"]
      u s g d
    by simp
qed

lemma int64_le_self: "0 \<le> x \<Longrightarrow> int64 x \<le> x"
  by (simp add: int64_def signed_take_bit_int_less_eq_self_iff)

lemma tooLate_deadline:
  assumes "StartingDeadlineSeconds (Spec c) = Some seconds" and "0 \<le> seconds"
    and "missedRun + seconds * Second < Now r 3"
  shows "tooLate r c missedRun"
proof -
  have "0 \<le> seconds * Second"
    using assms(2) by (simp add: Second_def)
  then have "int64 (seconds * Second) \<le> seconds * Second"
    by (rule int64_le_self)
  then show ?thesis
    using assms(1,3) by (simp add: tooLate_def Before_def Add_def)
qed

lemma scheduleAndLaunch_tooLate:
  assumes "Suspend (Spec c) \<noteq> Some True"
    and "getNextSchedule r c (Now r 0) = Inr (missedRun, nextRun)"
    and "tooLate r c missedRun"
  shows "result (scheduleAndLaunch r c active) = scheduledResult r nextRun"
    and "err (scheduleAndLaunch r c active) = None"
    and "createdJobs (events (scheduleAndLaunch r c active)) = []"
  using assms by (simp_all add: scheduleAndLaunch_def createdJobs_def)

text \<open>
  C6. For every reconciliation in which a starting deadline is configured (a
  non-negative number of seconds) and the missed run plus the deadline is before the
  clock reading, no work item is created and the invocation ends without error with the
  standard requeue, after the next run minus the clock reading. The hypotheses before
  the deadline say that the invocation gets as far as the schedule.
\<close>

theorem missed_deadline_no_launch:
  assumes "Get r = Inr cronJob" and "ListJobs r = Inr S"
    and "StatusUpdate r (rebuildStatus r cronJob S) = None"
    and "Suspend (Spec cronJob) \<noteq> Some True"
    and "getNextSchedule r (rebuildStatus r cronJob S) (Now r 0) = Inr (missedRun, nextRun)"
    and "StartingDeadlineSeconds (Spec cronJob) = Some seconds" and "0 \<le> seconds"
    and "missedRun + seconds * Second < Now r 3"
  shows "createdJobs (events (Reconcile r)) = []
       \<and> result (Reconcile r) = \<lparr>Requeue = False, RequeueAfter = Sub nextRun (Now r 1)\<rparr>
       \<and> err (Reconcile r) = None"
proof -
  let ?c = "rebuildStatus r cronJob S"
  have late: "tooLate r ?c missedRun"
    using assms(6-8) by (intro tooLate_deadline) (simp_all add: rebuildStatus_Spec)
  have susp: "Suspend (Spec ?c) \<noteq> Some True"
    using assms(4) by (simp add: rebuildStatus_Spec)
  show ?thesis
    using scheduleAndLaunch_tooLate [OF susp assms(5) late, of "ongoingJobs r S"]
      Reconcile_created [OF assms(1-3)]
    by (simp add: Reconcile_fetched [OF assms(1-3)] afterEvents_simps scheduledResult_def)
qed

text \<open>
  C6 on the example entity with a deadline of ten seconds, at 00:02:30: the run of
  00:02 is not launched and the requeue is after 30 seconds.
\<close>

theorem missed_deadline_no_launch_witness:
  "createdJobs (events (Reconcile (onStore exampleLibrary (exampleReconciler halfPastTwo)
      \<lparr>storedCronJob = deadlineCronJob, storedJobs = runningJobs\<rparr>))) = []
   \<and> result (Reconcile (onStore exampleLibrary (exampleReconciler halfPastTwo)
      \<lparr>storedCronJob = deadlineCronJob, storedJobs = runningJobs\<rparr>))
       = \<lparr>Requeue = False, RequeueAfter = 30 * Second\<rparr>
   \<and> err (Reconcile (onStore exampleLibrary (exampleReconciler halfPastTwo)
      \<lparr>storedCronJob = deadlineCronJob, storedJobs = runningJobs\<rparr>)) = None"
proof -
  let ?r = "onStore exampleLibrary (exampleReconciler halfPastTwo)
      \<lparr>storedCronJob = deadlineCronJob, storedJobs = runningJobs\<rparr>"
  have h: "Get ?r = Inr deadlineCronJob" "ListJobs ?r = Inr runningJobs"
    "StatusUpdate ?r (rebuildStatus ?r deadlineCronJob runningJobs) = None"
    by (simp_all add: onStore_def withSpecHelpers_def exampleReconciler_def)
  have s: "Suspend (Spec deadlineCronJob) \<noteq> Some True"
    by (simp add: deadlineCronJob_def cronJobExample_def)
  have g: "getNextSchedule ?r (rebuildStatus ?r deadlineCronJob runningJobs) (Now ?r 0)
      = Inr (newYear + 2 * Minute, newYear + 3 * Minute)"
    by code_simp
  have l: "StartingDeadlineSeconds (Spec deadlineCronJob) = Some 10" "(0::int) \<le> 10"
    by (simp_all add: deadlineCronJob_def)
  have n: "newYear + 2 * Minute + 10 * Second < Now ?r 3"
    by code_simp
  have d: "Sub (newYear + 3 * Minute) (Now ?r 1) = 30 * Second"
    by code_simp
  show ?thesis
    using missed_deadline_no_launch [OF h s g l n] d by simp
qed

section \<open>The Replace policy\<close>

lemma IgnoreNotFound_None: "IgnoreNotFound None = None"
  by (simp add: IgnoreNotFound_def)

lemma IgnoreNotFound_Some: "IgnoreNotFound e = Some x \<Longrightarrow> e = Some x"
  by (simp add: IgnoreNotFound_def split: option.splits error.splits)

lemma deleteActiveJobs_None:
  "fst (deleteActiveJobs r jobs) = None \<Longrightarrow>
     snd (deleteActiveJobs r jobs) = map DeleteCall jobs
     \<and> (\<forall>a\<in>set jobs. IgnoreNotFound (Delete r a) = None)"
  by (induction jobs) (auto simp add: IgnoreNotFound_None split: if_splits)

lemma deleteActiveJobs_Some:
  "fst (deleteActiveJobs r jobs) = Some e \<Longrightarrow>
     \<exists>a\<in>set jobs. Delete r a = Some e \<and> IgnoreNotFound (Delete r a) \<noteq> None"
  by (induction jobs) (auto split: if_splits)

lemma deleteActiveJobs_fails:
  "\<exists>a\<in>set jobs. IgnoreNotFound (Delete r a) \<noteq> None \<Longrightarrow> fst (deleteActiveJobs r jobs) \<noteq> None"
  by (induction jobs) (auto dest: IgnoreNotFound_Some split: if_splits)

lemma createdJobs_Nil_iff: "createdJobs evs = [] \<longleftrightarrow> (\<forall>e\<in>set evs. createdOf e = [])"
  by (simp add: createdJobs_def)

lemma created_after_prefix:
  assumes "createdJobs E = []" and "E @ rest = pre @ CreateCall job # post"
  shows "set E \<subseteq> set pre"
proof -
  let ?P = "\<lambda>e. createdOf e = []"
  have all: "\<forall>e\<in>set E. ?P e"
    using assms(1) by (simp add: createdJobs_Nil_iff)
  have "takeWhile ?P (pre @ CreateCall job # post) = takeWhile ?P pre"
    by (simp add: takeWhile_append takeWhile_eq_all_conv [THEN iffD2])
  moreover have "takeWhile ?P (E @ rest) = E @ takeWhile ?P rest"
    using all by (simp add: takeWhile_append)
  ultimately have "E @ takeWhile ?P rest = takeWhile ?P pre"
    using assms(2) by simp
  then have "set E \<subseteq> set (takeWhile ?P pre)"
    by (metis set_append Un_upper1)
  then show ?thesis
    using set_takeWhileD by fastforce
qed

lemma scheduleAndLaunch_replace_created:
  assumes "ConcurrencyPolicy (Spec c) = ReplaceConcurrent"
    and "createdJobs (events (scheduleAndLaunch r c active)) \<noteq> []"
  shows "(\<exists>rest. events (scheduleAndLaunch r c active) = map DeleteCall active @ rest)
       \<and> (\<forall>a\<in>set active. IgnoreNotFound (Delete r a) = None)"
proof -
  have notForbid: "ReplaceConcurrent \<noteq> ForbidConcurrent"
    by (simp add: ReplaceConcurrent_def ForbidConcurrent_def)
  have del: "createdJobs (snd (deleteActiveJobs r active)) = []"
    by (rule deleteActiveJobs_emitted)
  show ?thesis
  proof (cases "fst (deleteActiveJobs r active)")
    case None
    from deleteActiveJobs_None [OF None]
    have snd: "snd (deleteActiveJobs r active) = map DeleteCall active"
      and ok: "\<forall>a\<in>set active. IgnoreNotFound (Delete r a) = None"
      by simp_all
    have "\<exists>rest. events (scheduleAndLaunch r c active) = snd (deleteActiveJobs r active) @ rest"
      using assms None notForbid del
      by (auto simp add: scheduleAndLaunch_def createdJobs_def launch_def
          split: if_splits sum.splits prod.splits option.splits)
    then show ?thesis
      using snd ok by simp
  next
    case (Some e)
    then have "createdJobs (events (scheduleAndLaunch r c active)) = []"
      using assms(1) notForbid del
      by (auto simp add: scheduleAndLaunch_def createdJobs_def
          split: if_splits sum.splits prod.splits)
    then show ?thesis
      using assms(2) by simp
  qed
qed

lemma scheduleAndLaunch_replace_fatal:
  assumes "ConcurrencyPolicy (Spec c) = ReplaceConcurrent"
    and "Suspend (Spec c) \<noteq> Some True"
    and "getNextSchedule r c (Now r 0) = Inr (missedRun, nextRun)"
    and "\<not> IsZero missedRun" and "\<not> tooLate r c missedRun"
    and "fst (deleteActiveJobs r active) = Some e"
  shows "result (scheduleAndLaunch r c active) = emptyResult"
    and "err (scheduleAndLaunch r c active) = Some e"
  using assms
  by (simp_all add: scheduleAndLaunch_def ReplaceConcurrent_def ForbidConcurrent_def)

text \<open>
  C5. For every reconciliation under the Replace policy, a work item is created only
  after a delete call has been made for every active job and none of these calls has
  failed with an error other than not-found; when the delete of an active job fails
  with such an error, no work item is created, and once a run is due (the status is
  stored, the entity is not suspended, the schedule gives a missed run that is not past
  its deadline) the invocation returns the empty result together with the error of that
  delete.
\<close>

theorem replace_deletes_active_before_launch:
  assumes "Get r = Inr cronJob" and "ListJobs r = Inr S"
    and "ConcurrencyPolicy (Spec cronJob) = ReplaceConcurrent"
  shows "(\<forall>pre job post. events (Reconcile r) = pre @ CreateCall job # post \<longrightarrow>
            (\<forall>a\<in>set (ongoingJobs r S).
               DeleteCall a \<in> set pre \<and> IgnoreNotFound (Delete r a) = None))
       \<and> ((\<exists>a\<in>set (ongoingJobs r S). IgnoreNotFound (Delete r a) \<noteq> None) \<longrightarrow>
            createdJobs (events (Reconcile r)) = []
            \<and> (StatusUpdate r (rebuildStatus r cronJob S) = None
                 \<and> Suspend (Spec cronJob) \<noteq> Some True
                 \<and> getNextSchedule r (rebuildStatus r cronJob S) (Now r 0) = Inr (missedRun, nextRun)
                 \<and> \<not> IsZero missedRun \<and> \<not> tooLate r (rebuildStatus r cronJob S) missedRun
               \<longrightarrow> result (Reconcile r) = emptyResult
                   \<and> (\<exists>a\<in>set (ongoingJobs r S).
                         err (Reconcile r) = Delete r a \<and> IgnoreNotFound (Delete r a) \<noteq> None)))"
proof -
  let ?c = "rebuildStatus r cronJob S"
  let ?active = "ongoingJobs r S"
  let ?prefix = "statusEvents r cronJob S
        @ trimFailedJobs r ?c (failedJobs (classify r S))
        @ trimSuccessfulJobs r ?c (successfulJobs (classify r S))"
  have policy: "ConcurrencyPolicy (Spec ?c) = ReplaceConcurrent"
    using assms(3) by (simp add: rebuildStatus_Spec)
  have created: "createdJobs (events (Reconcile r)) =
      (case StatusUpdate r ?c of
         None \<Rightarrow> createdJobs (events (scheduleAndLaunch r ?c ?active)) | Some e \<Rightarrow> [])"
    using Reconcile_created [OF assms(1,2)] Reconcile_created_unfetched [OF assms(1,2)]
    by (simp split: option.split)
  have order: "DeleteCall a \<in> set pre \<and> IgnoreNotFound (Delete r a) = None"
    if ev: "events (Reconcile r) = pre @ CreateCall job # post" and a: "a \<in> set ?active"
    for pre job post a
  proof -
    have nonempty: "createdJobs (events (Reconcile r)) \<noteq> []"
      by (simp add: ev createdJobs_def)
    then have upd: "StatusUpdate r ?c = None"
      and launched: "createdJobs (events (scheduleAndLaunch r ?c ?active)) \<noteq> []"
      using created by (simp_all split: option.splits)
    from scheduleAndLaunch_replace_created [OF policy launched]
    obtain rest where rest: "events (scheduleAndLaunch r ?c ?active) = map DeleteCall ?active @ rest"
      and ok: "\<forall>a\<in>set ?active. IgnoreNotFound (Delete r a) = None"
      by blast
    have "events (Reconcile r) = (?prefix @ map DeleteCall ?active) @ rest"
      by (simp add: Reconcile_fetched [OF assms(1,2) upd] afterEvents_simps rest)
    moreover have "createdJobs (?prefix @ map DeleteCall ?active) = []"
      using prefix_created [of r cronJob S ?c "failedJobs (classify r S)" ?c
          "successfulJobs (classify r S)"]
      by (simp add: createdJobs_append) (simp add: createdJobs_def)
    ultimately have "set (?prefix @ map DeleteCall ?active) \<subseteq> set pre"
      using created_after_prefix ev by metis
    then show ?thesis
      using a ok by auto
  qed
  have fatal: "createdJobs (events (Reconcile r)) = []
       \<and> (StatusUpdate r ?c = None \<and> Suspend (Spec cronJob) \<noteq> Some True
            \<and> getNextSchedule r ?c (Now r 0) = Inr (missedRun, nextRun)
            \<and> \<not> IsZero missedRun \<and> \<not> tooLate r ?c missedRun
          \<longrightarrow> result (Reconcile r) = emptyResult
              \<and> (\<exists>a\<in>set ?active. err (Reconcile r) = Delete r a
                    \<and> IgnoreNotFound (Delete r a) \<noteq> None))"
    if failing: "\<exists>a\<in>set ?active. IgnoreNotFound (Delete r a) \<noteq> None"
  proof -
    from deleteActiveJobs_fails [OF failing]
    obtain e where e: "fst (deleteActiveJobs r ?active) = Some e"
      by blast
    have none: "createdJobs (events (Reconcile r)) = []"
    proof (rule ccontr)
      assume "createdJobs (events (Reconcile r)) \<noteq> []"
      then have "createdJobs (events (scheduleAndLaunch r ?c ?active)) \<noteq> []"
        using created by (simp split: option.splits)
      from scheduleAndLaunch_replace_created [OF policy this] failing
      show False by auto
    qed
    have "result (Reconcile r) = emptyResult
        \<and> (\<exists>a\<in>set ?active. err (Reconcile r) = Delete r a
              \<and> IgnoreNotFound (Delete r a) \<noteq> None)"
      if upd: "StatusUpdate r ?c = None" and susp: "Suspend (Spec cronJob) \<noteq> Some True"
        and sched: "getNextSchedule r ?c (Now r 0) = Inr (missedRun, nextRun)"
        and due: "\<not> IsZero missedRun" "\<not> tooLate r ?c missedRun"
    proof -
      have susp': "Suspend (Spec ?c) \<noteq> Some True"
        using susp by (simp add: rebuildStatus_Spec)
      have "result (Reconcile r) = emptyResult" and "err (Reconcile r) = Some e"
        using scheduleAndLaunch_replace_fatal [OF policy susp' sched due e]
        by (simp_all add: Reconcile_fetched [OF assms(1,2) upd] afterEvents_simps)
      moreover from deleteActiveJobs_Some [OF e]
      obtain a where "a \<in> set ?active" and "Delete r a = Some e"
        and "IgnoreNotFound (Delete r a) \<noteq> None"
        by blast
      ultimately show ?thesis
        by metis
    qed
    then show ?thesis
      using none by blast
  qed
  show ?thesis
    using order fatal by blast
qed

text \<open>
  C5 on the example entity under Replace, with one running job: when the delete is
  answered with not-found the job for 00:02 is created after the delete call; when it
  is answered with another error, that error is returned and nothing is created.
\<close>

theorem replace_deletes_active_before_launch_witness:
  "deletedJobs (events (Reconcile (replaceReconciler NotFound))) = runningJobs
   \<and> createdJobs (events (Reconcile (replaceReconciler NotFound)))
       = [exampleJob ''nightly-2021-01-01T00:02:00Z'' ''2021-01-01T00:02:00Z'' None Ongoing]
   \<and> IgnoreNotFound (Delete (replaceReconciler NotFound) (hd runningJobs)) = None
   \<and> createdJobs (events (Reconcile (replaceReconciler (OtherError ''conflict'')))) = []
   \<and> result (Reconcile (replaceReconciler (OtherError ''conflict''))) = emptyResult
   \<and> err (Reconcile (replaceReconciler (OtherError ''conflict''))) = Some (OtherError ''conflict'')"
proof -
  let ?r = "replaceReconciler (OtherError ''conflict'')"
  let ?g = "replaceReconciler NotFound"
  let ?new = "exampleJob ''nightly-2021-01-01T00:02:00Z'' ''2021-01-01T00:02:00Z'' None Ongoing"
  have h: "Get ?r = Inr replaceCronJob" "ListJobs ?r = Inr runningJobs"
    "ConcurrencyPolicy (Spec replaceCronJob) = ReplaceConcurrent"
    by (simp_all add: replaceReconciler_def onStore_def withSpecHelpers_def
        exampleReconciler_def replaceCronJob_def)
  have g: "Get ?g = Inr replaceCronJob" "ListJobs ?g = Inr runningJobs"
    by (simp_all add: replaceReconciler_def onStore_def withSpecHelpers_def
        exampleReconciler_def)
  have split: "events (Reconcile ?g) =
      [LogInfo ''fetched job counts'' None,
       StatusUpdateCall (rebuildStatus ?g replaceCronJob runningJobs),
       DeleteCall (hd runningJobs)]
      @ CreateCall ?new # [LogInfo ''created Job for CronJob run'' (Some ?new)]"
    by code_simp
  have active: "hd runningJobs \<in> set (ongoingJobs ?g runningJobs)"
    by code_simp
  have failing: "\<exists>a\<in>set (ongoingJobs ?r runningJobs). IgnoreNotFound (Delete ?r a) \<noteq> None"
    by code_simp
  have due: "StatusUpdate ?r (rebuildStatus ?r replaceCronJob runningJobs) = None"
    "Suspend (Spec replaceCronJob) \<noteq> Some True"
    "getNextSchedule ?r (rebuildStatus ?r replaceCronJob runningJobs) (Now ?r 0)
       = Inr (newYear + 2 * Minute, newYear + 3 * Minute)"
    "\<not> IsZero (newYear + 2 * Minute)"
    "\<not> tooLate ?r (rebuildStatus ?r replaceCronJob runningJobs) (newYear + 2 * Minute)"
    by code_simp+
  have every: "Delete ?r a = Some (OtherError ''conflict'')" for a
    by (simp add: replaceReconciler_def)
  have first: "deletedJobs (events (Reconcile ?g)) = runningJobs"
    "createdJobs (events (Reconcile ?g)) = [?new]"
    by code_simp+
  have ordered: "IgnoreNotFound (Delete ?g (hd runningJobs)) = None"
    using replace_deletes_active_before_launch [OF g h(3)] split active by blast
  show ?thesis
    using replace_deletes_active_before_launch
      [OF h, of "newYear + 2 * Minute" "newYear + 3 * Minute"] failing due first ordered
    by (simp add: every)
qed

section \<open>Not-found answers to a delete\<close>

text \<open>
  On the failed-history path and on the Replace path a not-found answer is not logged
  as an error, and on the Replace path it does not end the loop.
\<close>

lemma deleteOldFailedJobs_not_found:
  "Delete r job = Some NotFound \<Longrightarrow>
     LogError ''unable to delete old failed job'' (Some job)
       \<notin> set (deleteOldFailedJobs r limit n i jobs)"
  by (induction jobs arbitrary: i) (auto simp add: IgnoreNotFound_def)

lemma deleteActiveJobs_not_found:
  "\<forall>a\<in>set jobs. Delete r a = Some NotFound \<or> Delete r a = None \<Longrightarrow>
     deleteActiveJobs r jobs = (None, map DeleteCall jobs)"
  by (induction jobs) (auto simp add: IgnoreNotFound_def)

text \<open>
  C2. A not-found answer to the delete of an old successful job is logged as a failed
  deletion (the invocation itself goes on and returns no error): the claim that
  not-found counts as success holds on the failed-history and on the Replace path only.
\<close>

theorem successful_job_not_found_is_logged:
  "SuccessfulJobsHistoryLimit (Spec cronJobExample) = Some 0
   \<and> Delete goneReconciler succeededJob = Some NotFound
   \<and> events (Reconcile goneReconciler) =
       [LogInfo ''fetched job counts'' None,
        StatusUpdateCall (cronJobExample\<lparr>Status :=
          \<lparr>Active = [], LastScheduleTime = Some (newYear + 2 * Minute)\<rparr>\<rparr>),
        DeleteCall succeededJob,
        LogError ''unable to delete old successful job'' (Some succeededJob),
        LogInfo ''no upcoming scheduled times, sleeping until next'' None]
   \<and> err (Reconcile goneReconciler) = None"
  by code_simp

section \<open>History trimming\<close>

lemma int32_id: "- (2 ^ 31) \<le> x \<Longrightarrow> x < 2 ^ 31 \<Longrightarrow> int32 x = x"
  by (simp add: int32_def signed_take_bit_int_eq_self)

lemma trim_break_iff:
  assumes "0 \<le> K" and "K < 2 ^ 31" and "int n < 2 ^ 31" and "i < n"
  shows "int32 (int32 (int n) - K) \<le> int32 (int i) \<longleftrightarrow> int n - K \<le> int i"
proof -
  have "int32 (int n) = int n"
    using assms(3) by (simp add: int32_id)
  moreover have "int32 (int n - K) = int n - K"
    using assms(1-3) by (simp add: int32_id)
  moreover have "int32 (int i) = int i"
    using assms(3,4) by (simp add: int32_id)
  ultimately show ?thesis by simp
qed

lemma deleteOldFailedJobs_deleted:
  assumes "0 \<le> K" and "K < 2 ^ 31" and "int n < 2 ^ 31"
  shows "i + length jobs = n \<Longrightarrow>
     deletedJobs (deleteOldFailedJobs r K n i jobs) = take (nat (int n - K) - i) jobs"
proof (induction jobs arbitrary: i)
  case Nil
  show ?case by (simp add: deletedJobs_def)
next
  case (Cons job rest)
  then have i: "i < n" and step: "Suc i + length rest = n"
    by simp_all
  show ?case
  proof (cases "int n - K \<le> int i")
    case True
    then show ?thesis
      using trim_break_iff [OF assms i] by (simp add: deletedJobs_def)
  next
    case False
    then have "nat (int n - K) - i = Suc (nat (int n - K) - Suc i)"
      by linarith
    then show ?thesis
      using False trim_break_iff [OF assms i] Cons.IH [OF step]
      by (simp add: deletedJobs_def)
  qed
qed

lemma deleteOldSuccessfulJobs_deleted:
  assumes "0 \<le> K" and "K < 2 ^ 31" and "int n < 2 ^ 31"
  shows "i + length jobs = n \<Longrightarrow>
     deletedJobs (deleteOldSuccessfulJobs r K n i jobs) = take (nat (int n - K) - i) jobs"
proof (induction jobs arbitrary: i)
  case Nil
  show ?case by (simp add: deletedJobs_def)
next
  case (Cons job rest)
  then have i: "i < n" and step: "Suc i + length rest = n"
    by simp_all
  show ?case
  proof (cases "int n - K \<le> int i")
    case True
    then show ?thesis
      using trim_break_iff [OF assms i] by (simp add: deletedJobs_def)
  next
    case False
    then have "nat (int n - K) - i = Suc (nat (int n - K) - Suc i)"
      by linarith
    then show ?thesis
      using False trim_break_iff [OF assms i] Cons.IH [OF step]
      by (simp add: deletedJobs_def)
  qed
qed

text \<open>
  What is true of every prefix of a list sorted by \<open>startTimeLess\<close>, taken from a
  permutation of the items: the rest is what is kept.
\<close>

lemma sorted_prefix_is_oldest:
  assumes "mset ordered = mset items"
    and "sorted_wrt (\<lambda>a b. \<not> startTimeLess b a) ordered"
    and "0 \<le> K"
  shows "\<exists>kept. mset (take (nat (int (length ordered) - K)) ordered @ kept) = mset items
           \<and> length (take (nat (int (length ordered) - K)) ordered) = nat (int (length items) - K)
           \<and> length kept = min (length items) (nat K)
           \<and> (\<forall>d\<in>set (take (nat (int (length ordered) - K)) ordered). \<forall>k\<in>set kept.
                 \<not> startTimeLess k d)"
proof -
  let ?k = "nat (int (length ordered) - K)"
  have len: "length ordered = length items"
    using assms(1) by (metis size_mset)
  have "sorted_wrt (\<lambda>a b. \<not> startTimeLess b a) (take ?k ordered @ drop ?k ordered)"
    using assms(2) by simp
  then have "\<forall>d\<in>set (take ?k ordered). \<forall>k\<in>set (drop ?k ordered). \<not> startTimeLess k d"
    unfolding sorted_wrt_append by blast
  moreover have "mset (take ?k ordered @ drop ?k ordered) = mset items"
    using assms(1) by simp
  moreover have "length (take ?k ordered) = nat (int (length items) - K)"
    using assms(3) len by simp
  moreover have "length (drop ?k ordered) = min (length items) (nat K)"
    using assms(3) len by (simp add: min_def) linarith
  ultimately show ?thesis
    by blast
qed

text \<open>
  C1 as stated fails on the seven failed jobs, with \<open>sort.Slice\<close> as Go 1.16 runs it:
  of the two jobs that never started the reconciler deletes the one that comes later in
  the snapshot, where an order that keeps the input order of equal items selects the
  earlier one.
\<close>

theorem unstable_sort_counterexample:
  "deletedJobs (events (Reconcile sevenReconciler)) = [failedJob ''nightly-6'' None]
   \<and> selectForDeletion sevenJobs 6 = [failedJob ''nightly-1'' None]"
  by code_simp

text \<open>
  C1, as amended. For every collection of \<open>N\<close> finished items (fewer than \<open>2 ^ 31\<close>) and
  every set retention limit \<open>K\<close> with \<open>0 \<le> K\<close> (an \<open>int32\<close>), whatever order \<open>sort.Slice\<close>
  gives to items that compare equal, the trimmer selects exactly \<open>max (N - K) 0\<close> items
  for deletion and keeps the other \<open>min N K\<close>, none of which is older than a deleted
  one; an item with no start time is older than any item with a start time. Which of
  several items that compare equal is kept is left open.
\<close>

theorem trimming_deletes_oldest:
  assumes "0 \<le> K" and "K < 2 ^ 31" and "int (length items) < 2 ^ 31"
    and "mset (SortSlice r startTimeLess items) = mset items"
    and "sorted_wrt (\<lambda>a b. \<not> startTimeLess b a) (SortSlice r startTimeLess items)"
  shows "(FailedJobsHistoryLimit (Spec cronJob) = Some K \<longrightarrow>
            oldestDeleted items K (deletedJobs (trimFailedJobs r cronJob items)))
       \<and> (SuccessfulJobsHistoryLimit (Spec cronJob) = Some K \<longrightarrow>
            oldestDeleted items K (deletedJobs (trimSuccessfulJobs r cronJob items)))"
proof -
  let ?ordered = "SortSlice r startTimeLess items"
  have len: "int (length ?ordered) < 2 ^ 31"
    using assms(3,4) by (metis size_mset)
  have "oldestDeleted items K (take (nat (int (length ?ordered) - K)) ?ordered)"
    unfolding oldestDeleted_def
    using sorted_prefix_is_oldest [OF assms(4,5,1)] by simp
  moreover have "deletedJobs (deleteOldFailedJobs r K (length ?ordered) 0 ?ordered)
      = take (nat (int (length ?ordered) - K)) ?ordered"
    using deleteOldFailedJobs_deleted [OF assms(1,2) len, of 0 ?ordered r] by simp
  moreover have "deletedJobs (deleteOldSuccessfulJobs r K (length ?ordered) 0 ?ordered)
      = take (nat (int (length ?ordered) - K)) ?ordered"
    using deleteOldSuccessfulJobs_deleted [OF assms(1,2) len, of 0 ?ordered r] by simp
  ultimately show ?thesis
    by (simp add: trimFailedJobs_def trimSuccessfulJobs_def)
qed

text \<open>
  C1, as amended, on the seven failed jobs under a limit of six: one job is deleted,
  and it is one of the two that never started.
\<close>

theorem trimming_deletes_oldest_witness:
  "deletedJobs (trimFailedJobs sevenReconciler keepSix sevenJobs) = [failedJob ''nightly-6'' None]
   \<and> oldestDeleted sevenJobs 6 [failedJob ''nightly-6'' None]"
proof -
  have ordered: "SortSlice sevenReconciler startTimeLess sevenJobs =
     [failedJob ''nightly-6'' None, failedJob ''nightly-1'' None,
      failedJob ''nightly-0'' (Some (newYear + 5 * Second)),
      failedJob ''nightly-2'' (Some (newYear + 6 * Second)),
      failedJob ''nightly-3'' (Some (newYear + 7 * Second)),
      failedJob ''nightly-4'' (Some (newYear + 8 * Second)),
      failedJob ''nightly-5'' (Some (newYear + 9 * Second))]"
    by code_simp
  have perm: "mset (SortSlice sevenReconciler startTimeLess sevenJobs) = mset sevenJobs"
    unfolding ordered by (simp add: sevenJobs_def)
  have asc: "sorted_wrt (\<lambda>a b. \<not> startTimeLess b a) (SortSlice sevenReconciler startTimeLess sevenJobs)"
    unfolding ordered by code_simp
  have deleted: "deletedJobs (trimFailedJobs sevenReconciler keepSix sevenJobs)
      = [failedJob ''nightly-6'' None]"
    by code_simp
  have limit: "FailedJobsHistoryLimit (Spec keepSix) = Some 6"
    by (simp add: keepSix_def)
  have "(0::int) \<le> 6" and "(6::int) < 2 ^ 31" and "int (length sevenJobs) < 2 ^ 31"
    by (simp_all add: sevenJobs_def)
  from trimming_deletes_oldest [OF this perm asc, of keepSix] limit deleted
  show ?thesis by simp
qed

section \<open>The schedule calculator\<close>

lemma collectRuns_Inr:
  "starts \<le> 100 \<Longrightarrow> collectRuns next now starts missed t = Inr (m, n) \<Longrightarrow>
     \<exists>k. k + starts \<le> 100 \<and> n = (next ^^ k) t \<and> now < n
       \<and> (if k = 0 then m = missed else m = (next ^^ (k - 1)) t \<and> m \<le> now)"
proof (induction "next" now starts missed t rule: collectRuns.induct)
  case (1 "next" now starts missedRun t)
  show ?case
  proof (cases "t \<le> now")
    case False
    then have "m = missedRun" and "n = t"
      using "1.prems"(2) collectRuns.simps [of "next" now starts missedRun t] by simp_all
    then show ?thesis
      using False "1.prems"(1) by (intro exI [of _ 0]) simp
  next
    case True
    then have small: "\<not> 100 < Suc starts"
      and rec: "collectRuns next now (Suc starts) t (next t) = Inr (m, n)"
      using "1.prems"(2) collectRuns.simps [of "next" now starts missedRun t]
      by (simp_all split: if_splits)
    from small have "Suc starts \<le> 100" by simp
    from "1.IH" [OF True small this rec]
    obtain k where k: "k + Suc starts \<le> 100" "n = (next ^^ k) (next t)" "now < n"
      "if k = 0 then m = t else m = (next ^^ (k - 1)) (next t) \<and> m \<le> now"
      by blast
    have "m = (next ^^ k) t \<and> m \<le> now"
    proof (cases k)
      case 0
      then show ?thesis using k(4) True by simp
    next
      case (Suc j)
      then show ?thesis using k(4) by (simp add: funpow_swap1)
    qed
    then show ?thesis
      using k(1-3) by (intro exI [of _ "Suc k"]) (simp add: funpow_swap1)
  qed
qed

lemma collectRuns_Inl:
  "starts \<le> 100 \<Longrightarrow> \<forall>k\<le>100 - starts. (next ^^ k) t \<le> now \<Longrightarrow>
     collectRuns next now starts missed t = Inl ScheduleUnresolvable"
proof (induction "next" now starts missed t rule: collectRuns.induct)
  case (1 "next" now starts missedRun t)
  have here: "t \<le> now"
    using "1.prems"(2) by (metis funpow_0 zero_le)
  show ?case
  proof (cases "100 < Suc starts")
    case True
    then show ?thesis
      using here collectRuns.simps [of "next" now starts missedRun t] by simp
  next
    case False
    then have "Suc starts \<le> 100" by simp
    moreover have "\<forall>k\<le>100 - Suc starts. (next ^^ k) (next t) \<le> now"
    proof (intro allI impI)
      fix k assume "k \<le> 100 - Suc starts"
      then have "Suc k \<le> 100 - starts" using False by simp
      then have "(next ^^ Suc k) t \<le> now" using "1.prems"(2) by blast
      then show "(next ^^ k) (next t) \<le> now" by (simp add: funpow_swap1)
    qed
    ultimately have "collectRuns next now (Suc starts) t (next t) = Inl ScheduleUnresolvable"
      using "1.IH" [OF here False] by blast
    then show ?thesis
      using here False collectRuns.simps [of "next" now starts missedRun t] by simp
  qed
qed

lemma scheduleAndLaunch_unresolved:
  assumes "Suspend (Spec c) \<noteq> Some True" and "getNextSchedule r c (Now r 0) = Inl e"
  shows "result (scheduleAndLaunch r c active) = emptyResult"
    and "err (scheduleAndLaunch r c active) = None"
    and "createdJobs (events (scheduleAndLaunch r c active)) = []"
  using assms by (simp_all add: scheduleAndLaunch_def createdJobs_def)

text \<open>
  C7. With the schedule calculator as the spec describes it, the computation is a total
  function that stops after at most 100 forward steps of the next-activation operator
  past the first activation: a result \<open>(missedRun, nextRun)\<close> is reached after
  \<open>k \<le> 100\<close> steps, \<open>nextRun\<close> is after the reference time, and \<open>missedRun\<close> is the
  activation just before \<open>nextRun\<close> (the zero time when \<open>k = 0\<close>), so it is never
  stale. If the first 101 activations after the last known time all lie at or before
  the reference time, the computation fails with \<open>ScheduleUnresolvable\<close>, and the
  reconciler then returns the empty result, no error, and creates no work item.
\<close>

theorem schedule_bounded_at_100_activations:
  assumes "getNextSchedule r = getNextSchedule_spec lib"
    and "ParseStandard lib (Schedule (Spec cronJob)) = Some next"
    and "Get r = Inr cronJob" and "ListJobs r = Inr S"
    and "StatusUpdate r (rebuildStatus r cronJob S) = None"
    and "Suspend (Spec cronJob) \<noteq> Some True"
  shows "((\<forall>k\<in>{1..101}. (next ^^ k) (lastKnownTime (rebuildStatus r cronJob S)) \<le> Now r 0) \<longrightarrow>
            getNextSchedule r (rebuildStatus r cronJob S) (Now r 0) = Inl ScheduleUnresolvable
            \<and> result (Reconcile r) = emptyResult \<and> err (Reconcile r) = None
            \<and> createdJobs (events (Reconcile r)) = [])
       \<and> (\<forall>missedRun nextRun.
            getNextSchedule r (rebuildStatus r cronJob S) (Now r 0) = Inr (missedRun, nextRun) \<longrightarrow>
            (\<exists>k\<le>100. nextRun = (next ^^ Suc k) (lastKnownTime (rebuildStatus r cronJob S))
               \<and> Now r 0 < nextRun
               \<and> (if k = 0 then missedRun = 0
                   else missedRun = (next ^^ k) (lastKnownTime (rebuildStatus r cronJob S))
                     \<and> missedRun \<le> Now r 0)))"
proof -
  let ?c = "rebuildStatus r cronJob S"
  let ?L = "lastKnownTime ?c"
  have sched: "getNextSchedule r ?c (Now r 0) = collectRuns next (Now r 0) 0 0 (next ?L)"
    using assms(1,2) by (simp add: getNextSchedule_spec_def rebuildStatus_Spec)
  have susp: "Suspend (Spec ?c) \<noteq> Some True"
    using assms(6) by (simp add: rebuildStatus_Spec)
  have unresolved: "getNextSchedule r ?c (Now r 0) = Inl ScheduleUnresolvable
      \<and> result (Reconcile r) = emptyResult \<and> err (Reconcile r) = None
      \<and> createdJobs (events (Reconcile r)) = []"
    if many: "\<forall>k\<in>{1..101}. (next ^^ k) ?L \<le> Now r 0"
  proof -
    have "\<forall>k\<le>100 - 0. (next ^^ k) (next ?L) \<le> Now r 0"
    proof (intro allI impI)
      fix k :: nat assume "k \<le> 100 - 0"
      then have "Suc k \<in> {1..101}" by simp
      then have "(next ^^ Suc k) ?L \<le> Now r 0" using many by blast
      then show "(next ^^ k) (next ?L) \<le> Now r 0" by (simp add: funpow_swap1)
    qed
    then have fails: "getNextSchedule r ?c (Now r 0) = Inl ScheduleUnresolvable"
      using collectRuns_Inl [of 0 "next" "next ?L" "Now r 0" 0] sched by simp
    show ?thesis
      using scheduleAndLaunch_unresolved [OF susp fails, of "ongoingJobs r S"]
        Reconcile_created [OF assms(3-5)] fails
      by (simp add: Reconcile_fetched [OF assms(3-5)] afterEvents_simps)
  qed
  have resolved: "\<exists>k\<le>100. nextRun = (next ^^ Suc k) ?L \<and> Now r 0 < nextRun
      \<and> (if k = 0 then missedRun = 0 else missedRun = (next ^^ k) ?L \<and> missedRun \<le> Now r 0)"
    if "getNextSchedule r ?c (Now r 0) = Inr (missedRun, nextRun)" for missedRun nextRun
  proof -
    have "collectRuns next (Now r 0) 0 0 (next ?L) = Inr (missedRun, nextRun)"
      using that sched by simp
    from collectRuns_Inr [OF _ this]
    obtain k where k: "k \<le> 100" "nextRun = (next ^^ k) (next ?L)" "Now r 0 < nextRun"
      "if k = 0 then missedRun = 0
       else missedRun = (next ^^ (k - 1)) (next ?L) \<and> missedRun \<le> Now r 0"
      by auto
    have "if k = 0 then missedRun = 0 else missedRun = (next ^^ k) ?L \<and> missedRun \<le> Now r 0"
    proof (cases k)
      case 0
      then show ?thesis using k(4) by simp
    next
      case (Suc j)
      then show ?thesis using k(4) by (simp add: funpow_swap1)
    qed
    then show ?thesis
      using k(1-3) by (intro exI [of _ k]) (simp add: funpow_swap1)
  qed
  show ?thesis
    using unresolved resolved by blast
qed

lemma everyMinute_funpow: "(everyMinute ^^ k) (a * Minute) = (a + int k) * Minute"
proof (induction k)
  case 0
  show ?case by simp
next
  case (Suc k)
  have "everyMinute ((a + int k) * Minute) = (a + int k + 1) * Minute"
    by (simp add: everyMinute_def Minute_def Second_def)
  then show ?case
    using Suc by (simp add: add.assoc)
qed

text \<open>
  C7 on the example entity reconciled two hundred minutes after its creation: the
  schedule is unresolvable, and the reconciler returns the empty result.
\<close>

theorem schedule_bounded_at_100_activations_witness:
  "getNextSchedule staleReconciler (rebuildStatus staleReconciler cronJobExample [])
       (Now staleReconciler 0) = Inl ScheduleUnresolvable
   \<and> result (Reconcile staleReconciler) = emptyResult
   \<and> err (Reconcile staleReconciler) = None
   \<and> createdJobs (events (Reconcile staleReconciler)) = []"
proof -
  let ?r = staleReconciler
  have h: "getNextSchedule ?r = getNextSchedule_spec exampleLibrary"
    "ParseStandard exampleLibrary (Schedule (Spec cronJobExample)) = Some everyMinute"
    "Get ?r = Inr cronJobExample" "ListJobs ?r = Inr []"
    "StatusUpdate ?r (rebuildStatus ?r cronJobExample []) = None"
    "Suspend (Spec cronJobExample) \<noteq> Some True"
    by (simp_all add: staleReconciler_def onStore_def withSpecHelpers_def exampleReconciler_def
        exampleLibrary_def cronJobExample_def)
  have last: "lastKnownTime (rebuildStatus ?r cronJobExample []) = 1062417600 * Minute"
    by code_simp
  have now: "Now ?r 0 = 1062417800 * Minute"
    by code_simp
  have many: "\<forall>k\<in>{1..101}. (everyMinute ^^ k) (lastKnownTime (rebuildStatus ?r cronJobExample []))
      \<le> Now ?r 0"
    unfolding last now everyMinute_funpow by (simp add: Minute_def Second_def)
  show ?thesis
    using schedule_bounded_at_100_activations [OF h] many by blast
qed

section \<open>The requeue-after duration\<close>

lemma Sub_positive: "u < t \<Longrightarrow> 0 < Sub t u"
  by (simp add: Sub_def maxDuration_def minDuration_def)

lemma getNextSchedule_spec_after:
  "getNextSchedule_spec lib c now = Inr (m, n) \<Longrightarrow> now < n"
  using collectRuns_Inr [of 0 _ now 0 _ m n]
  by (auto simp add: getNextSchedule_spec_def split: option.splits)

lemma launch_result:
  "(err (launch r c m n evs) = None \<and> result (launch r c m n evs) = scheduledResult r n)
   \<or> (err (launch r c m n evs) \<noteq> None \<and> result (launch r c m n evs) = emptyResult)"
  by (simp add: launch_def split: sum.split option.split)

lemma scheduleAndLaunch_result:
  assumes "Suspend (Spec c) \<noteq> Some True"
    and "getNextSchedule r c (Now r 0) = Inr (m, n)"
  shows "(err (scheduleAndLaunch r c active) = None
            \<and> result (scheduleAndLaunch r c active) = scheduledResult r n)
       \<or> (err (scheduleAndLaunch r c active) \<noteq> None
            \<and> result (scheduleAndLaunch r c active) = emptyResult)"
  using assms launch_result [of r c m n "[]"]
    launch_result [of r c m n "snd (deleteActiveJobs r active)"]
  by (auto simp add: scheduleAndLaunch_def split: option.splits)

lemma scheduleAndLaunch_unscheduled:
  assumes "Suspend (Spec c) = Some True \<or> getNextSchedule r c (Now r 0) = Inl e"
  shows "result (scheduleAndLaunch r c active) = emptyResult"
    and "err (scheduleAndLaunch r c active) = None"
  using assms by (auto simp add: scheduleAndLaunch_def)

lemma Reconcile_unfetched:
  assumes "Get r = Inl e \<or> ListJobs r = Inl e
      \<or> (Get r = Inr cronJob \<and> ListJobs r = Inr S
          \<and> StatusUpdate r (rebuildStatus r cronJob S) = Some e)"
  shows "result (Reconcile r) = emptyResult"
  using assms by (auto simp add: Reconcile_def split: sum.splits)

lemma Reconcile_outcome:
  "result (Reconcile r) = emptyResult
   \<or> (\<exists>cronJob S m n. Get r = Inr cronJob \<and> ListJobs r = Inr S
         \<and> StatusUpdate r (rebuildStatus r cronJob S) = None
         \<and> Suspend (Spec cronJob) \<noteq> Some True
         \<and> getNextSchedule r (rebuildStatus r cronJob S) (Now r 0) = Inr (m, n)
         \<and> err (Reconcile r) = None
         \<and> result (Reconcile r) = scheduledResult r n)"
proof (cases "Get r")
  case (Inl e)
  then show ?thesis using Reconcile_unfetched [of r e] by simp
next
  case get: (Inr cronJob)
  show ?thesis
  proof (cases "ListJobs r")
    case (Inl e)
    then show ?thesis using Reconcile_unfetched [of r e] by simp
  next
    case list: (Inr S)
    let ?c = "rebuildStatus r cronJob S"
    show ?thesis
    proof (cases "StatusUpdate r ?c")
      case (Some e)
      then show ?thesis using Reconcile_unfetched [of r e cronJob S] get list by simp
    next
      case None
      note fetched = Reconcile_fetched [OF get list None]
      show ?thesis
      proof (cases "Suspend (Spec ?c) = Some True")
        case True
        then show ?thesis
          using scheduleAndLaunch_unscheduled(1) [of ?c r] fetched
          by (simp add: afterEvents_simps)
      next
        case False
        show ?thesis
        proof (cases "getNextSchedule r ?c (Now r 0)")
          case (Inl e)
          then show ?thesis
            using scheduleAndLaunch_unscheduled(1) [of ?c r e] fetched
            by (simp add: afterEvents_simps)
        next
          case (Inr p)
          obtain m n where p: "p = (m, n)" by (cases p)
          from scheduleAndLaunch_result [OF False Inr [unfolded p], of "ongoingJobs r S"]
          show ?thesis
            using get list None False Inr p fetched
            by (auto simp add: afterEvents_simps rebuildStatus_Spec)
        qed
      qed
    qed
  qed
qed

text \<open>
  C8 as stated fails twice: the suspended entity is given no requeue although its
  schedule is computable, and with the moving clock the requeue is minus one second.
\<close>

theorem requeue_after_counterexample:
  "getNextSchedule suspendedReconciler
       (rebuildStatus suspendedReconciler suspendedCronJob runningJobs) halfPastTwo
     = Inr (newYear + 2 * Minute, newYear + 3 * Minute)
   \<and> err (Reconcile suspendedReconciler) = None
   \<and> RequeueAfter (result (Reconcile suspendedReconciler)) = 0
   \<and> err (Reconcile driftingReconciler) = None
   \<and> RequeueAfter (result (Reconcile driftingReconciler)) = - Second"
  by code_simp

text \<open>
  C8, as amended. When the clock reads the same at the two readings that the requeue
  depends on, and the next run that the schedule calculator returns is after the
  reference time, the requeue-after duration of every decision is non-negative. It is
  zero whenever the invocation returns an error, the entity cannot be fetched, the
  entity is suspended or the schedule cannot be computed; in every other case it is the
  next run minus the clock reading, which is positive.
\<close>

theorem requeue_after_nonnegative:
  assumes "Now r 1 = Now r 0"
    and "\<forall>c m n. getNextSchedule r c (Now r 0) = Inr (m, n) \<longrightarrow> Now r 0 < n"
  shows "0 \<le> RequeueAfter (result (Reconcile r))
       \<and> (err (Reconcile r) \<noteq> None \<longrightarrow> RequeueAfter (result (Reconcile r)) = 0)
       \<and> (Get r = Inl e \<longrightarrow> RequeueAfter (result (Reconcile r)) = 0)
       \<and> (Get r = Inr cronJob \<and> ListJobs r = Inr S \<longrightarrow>
            (Suspend (Spec cronJob) = Some True \<longrightarrow> RequeueAfter (result (Reconcile r)) = 0)
          \<and> (getNextSchedule r (rebuildStatus r cronJob S) (Now r 0) = Inl e \<longrightarrow>
                RequeueAfter (result (Reconcile r)) = 0)
          \<and> (Suspend (Spec cronJob) \<noteq> Some True
                \<and> getNextSchedule r (rebuildStatus r cronJob S) (Now r 0) = Inr (m, n)
                \<and> err (Reconcile r) = None \<longrightarrow>
                RequeueAfter (result (Reconcile r)) = Sub n (Now r 1)
                \<and> 0 < RequeueAfter (result (Reconcile r))))"
proof -
  have positive: "0 < RequeueAfter (scheduledResult r n')"
    if "getNextSchedule r c (Now r 0) = Inr (m', n')" for c m' n'
    using that assms by (simp add: scheduledResult_def Sub_positive)
  have zero: "RequeueAfter emptyResult = 0"
    by (simp add: emptyResult_def)
  have a: "0 \<le> RequeueAfter (result (Reconcile r))"
    using Reconcile_outcome [of r] positive zero by (metis less_le order_refl)
  have b: "RequeueAfter (result (Reconcile r)) = 0" if "err (Reconcile r) \<noteq> None"
    using Reconcile_outcome [of r] that zero by auto
  have c: "RequeueAfter (result (Reconcile r)) = 0" if "Get r = Inl e"
    using Reconcile_outcome [of r] that zero by auto
  have d: "RequeueAfter (result (Reconcile r)) = 0"
    if "Get r = Inr cronJob" "ListJobs r = Inr S"
      and "Suspend (Spec cronJob) = Some True
           \<or> getNextSchedule r (rebuildStatus r cronJob S) (Now r 0) = Inl e"
    using Reconcile_outcome [of r] that zero by auto
  have f: "RequeueAfter (result (Reconcile r)) = Sub n (Now r 1)
        \<and> 0 < RequeueAfter (result (Reconcile r))"
    if "Get r = Inr cronJob" "ListJobs r = Inr S" "Suspend (Spec cronJob) \<noteq> Some True"
      and sched: "getNextSchedule r (rebuildStatus r cronJob S) (Now r 0) = Inr (m, n)"
      and ok: "err (Reconcile r) = None"
  proof (cases "StatusUpdate r (rebuildStatus r cronJob S)")
    case (Some e')
    then have "err (Reconcile r) = Some e'"
      using that(1,2) by (simp add: Reconcile_def)
    then show ?thesis using ok by simp
  next
    case None
    have susp: "Suspend (Spec (rebuildStatus r cronJob S)) \<noteq> Some True"
      using that(3) by (simp add: rebuildStatus_Spec)
    from scheduleAndLaunch_result [OF susp sched, of "ongoingJobs r S"] ok
    have "result (Reconcile r) = scheduledResult r n"
      by (simp add: Reconcile_fetched [OF that(1,2) None] afterEvents_simps)
    then show ?thesis
      using positive [OF sched] by (simp add: scheduledResult_def)
  qed
  show ?thesis
    using a b c d f by blast
qed

text \<open>
  C8, as amended, on the suspended entity (requeue zero) and on the example entity with
  one running job at 00:02:30 (requeue after 30 seconds).
\<close>

theorem requeue_after_nonnegative_witness:
  "RequeueAfter (result (Reconcile suspendedReconciler)) = 0
   \<and> RequeueAfter (result (Reconcile (onStore exampleLibrary (exampleReconciler halfPastTwo)
        \<lparr>storedCronJob = cronJobExample, storedJobs = runningJobs\<rparr>))) = 30 * Second"
proof -
  let ?s = suspendedReconciler
  let ?r = "onStore exampleLibrary (exampleReconciler halfPastTwo)
        \<lparr>storedCronJob = cronJobExample, storedJobs = runningJobs\<rparr>"
  have spec: "getNextSchedule ?s = getNextSchedule_spec exampleLibrary"
    "getNextSchedule ?r = getNextSchedule_spec exampleLibrary"
    by (simp_all add: suspendedReconciler_def onStore_def withSpecHelpers_def)
  have clock: "Now ?s 1 = Now ?s 0" "Now ?r 1 = Now ?r 0"
    by (simp_all add: suspendedReconciler_def onStore_def withSpecHelpers_def
        exampleReconciler_def)
  have after: "\<forall>c m n. getNextSchedule ?s c (Now ?s 0) = Inr (m, n) \<longrightarrow> Now ?s 0 < n"
    "\<forall>c m n. getNextSchedule ?r c (Now ?r 0) = Inr (m, n) \<longrightarrow> Now ?r 0 < n"
    using getNextSchedule_spec_after unfolding spec by blast+
  have s: "Get ?s = Inr suspendedCronJob" "ListJobs ?s = Inr runningJobs"
    "Suspend (Spec suspendedCronJob) = Some True"
    by (simp_all add: suspendedReconciler_def onStore_def withSpecHelpers_def
        exampleReconciler_def suspendedCronJob_def)
  have r: "Get ?r = Inr cronJobExample" "ListJobs ?r = Inr runningJobs"
    "Suspend (Spec cronJobExample) \<noteq> Some True"
    "getNextSchedule ?r (rebuildStatus ?r cronJobExample runningJobs) (Now ?r 0)
       = Inr (newYear + 2 * Minute, newYear + 3 * Minute)"
    "err (Reconcile ?r) = None"
    "Sub (newYear + 3 * Minute) (Now ?r 1) = 30 * Second"
    by code_simp+
  show ?thesis
    using requeue_after_nonnegative [OF clock(1) after(1), of _ suspendedCronJob runningJobs]
      requeue_after_nonnegative [OF clock(2) after(2), of _ cronJobExample runningJobs
        "newYear + 2 * Minute" "newYear + 3 * Minute"] s r
    by simp
qed

section \<open>Two invocations in succession\<close>






















end
